theory Spec2Isabelle
  imports Complex_Main "HOL-Library.AList" "HOL-Library.Sublist"
begin

section \<open>Strings as the program uses them\<close>

text \<open>
  Names of scene objects, squares and messages are JavaScript strings; they are modelled
  as \<open>string\<close> (ASCII is assumed, so that one character is one UTF-16 code unit).
  A value that may be \<open>undefined\<close> is a \<open>string option\<close>.
\<close>

text \<open>JavaScript truthiness of \<open>string | undefined\<close>: \<open>undefined\<close> and the empty string are falsy.\<close>

definition truthy :: "string option \<Rightarrow> bool" where
  "truthy v = (case v of None \<Rightarrow> False | Some s \<Rightarrow> s \<noteq> [])"

text \<open>\<open>s.includes(pat)\<close>: \<open>pat\<close> occurs in \<open>s\<close> as a contiguous run.\<close>

fun str_includes :: "string \<Rightarrow> string \<Rightarrow> bool" where
  "str_includes pat [] = (pat = [])"
| "str_includes pat (c # cs) = (prefix pat (c # cs) \<or> str_includes pat cs)"

text \<open>\<open>s.split(sep)\<close> for a one-character separator: never the empty array.\<close>

fun split :: "char \<Rightarrow> string \<Rightarrow> string list" where
  "split sep [] = [[]]"
| "split sep (c # cs) =
     (if c = sep then [] # split sep cs
      else (case split sep cs of [] \<Rightarrow> [[c]] | w # ws \<Rightarrow> (c # w) # ws))"

text \<open>\<open>xs[i]\<close> on an array: \<open>undefined\<close> out of range.\<close>

definition at_index :: "'a list \<Rightarrow> nat \<Rightarrow> 'a option" where
  "at_index xs i = (if i < length xs then Some (xs ! i) else None)"

text \<open>\<open>s.slice(a, b)\<close> for \<open>0 \<le> a \<le> b\<close>.\<close>

definition slice :: "nat \<Rightarrow> nat \<Rightarrow> string \<Rightarrow> string" where
  "slice a b s = take (b - a) (drop a s)"

text \<open>A value interpolated into a template literal: \<open>undefined\<close> prints as the word.\<close>

definition interpolate :: "string option \<Rightarrow> string" where
  "interpolate v = (case v of None \<Rightarrow> ''undefined'' | Some s \<Rightarrow> s)"

text \<open>
  A number interpolated into a template literal: its decimal digits (\<open>digit_char\<close> is
  applied to numbers below ten only).
\<close>

definition digit_char :: "nat \<Rightarrow> char" where
  "digit_char d = ''0123456789'' ! d"

function decimal :: "nat \<Rightarrow> string" where
  "decimal n = (if n < 10 then [digit_char n] else decimal (n div 10) @ [digit_char (n mod 10)])"
  by pat_completeness auto
termination
  by (relation "measure id") auto

declare decimal.simps [simp del]

section \<open>Data model\<close>

text \<open>
  The move record returned by the rules engine (\<open>Move\<close> of chess.js); only the fields the
  program reads: \<open>from\<close>, \<open>to\<close>, \<open>san\<close>, \<open>flags\<close>, \<open>promotion\<close>.
\<close>

record Move =
  mv_from :: string
  mv_to :: string
  san :: string
  flags :: string
  promotion :: "string option"

text \<open>
  The rules engine is an external library. It is represented by the table of its answers:
  for each request \<open>(from, to, promotion)\<close> that \<open>game.move\<close> accepts, the move record it
  returns and the engine after the move; a request that is not in the table throws. The
  two termination queries and the position string are read off the engine.
\<close>

datatype game = Game
  (replies: "((string \<times> string \<times> string) \<times> Move \<times> game) list")
  (isCheckmate: bool)
  (isDraw: bool)
  (fen: string)

definition game_move :: "game \<Rightarrow> string \<Rightarrow> string \<Rightarrow> string \<Rightarrow> (Move \<times> game) option" where
  "game_move g from to promo = map_of (replies g) (from, to, promo)"

text \<open>
  A child of \<open>scene.children[0]\<close>: a piece or a square. The colour set by the highlight
  functions on the object's meshes is kept as one number per object. Coordinates are
  taken as reals.
\<close>

record obj =
  name :: string
  visible :: bool
  frustumCulled :: bool
  position :: "real \<times> real \<times> real"
  emissive :: nat

text \<open>
  \<open>boardState\<close> is a JavaScript object used as a dictionary; \<open>Object.entries\<close> lists
  string keys in insertion order, and two functions below take the first entry with a
  given value, so the order is kept: an association list with assignment
  \<^const>\<open>AList.update\<close> (in place, or appended) and \<open>delete\<close> \<^const>\<open>AList.delete\<close>.
  (A key that is a canonical array index would be listed first; the identities of the
  program are not of that form.)
\<close>

type_synonym BoardState = "(string \<times> string) list"

datatype error = InvalidMove | TypeError

text \<open>
  The module's variables, the three DOM elements the program writes (absent elements are
  \<open>None\<close>; the modals hold whether they are displayed) and the messages posted to the
  search worker. \<open>deferredResolve\<close> holds what the pending resolver resumes: the \<open>from\<close>
  and \<open>to\<close> of the suspended \<open>moveSelectedPiece\<close>.
\<close>

record state =
  boardState :: BoardState
  scene :: "obj list"
  game :: game
  isPlayerTurn :: bool
  selectedPiece :: "string option"
  validMoves :: "Move list"
  previousMove :: "Move option"
  deferredResolve :: "(string \<times> string) option"
  promotionModal :: "bool option"
  gameVerdict :: "string option"
  verdictModal :: "bool option"
  botMessages :: "string list"

section \<open>Board registry and scene lookups\<close>

definition getPieceAt :: "BoardState \<Rightarrow> string \<Rightarrow> string option" where
  "getPieceAt bs pos =
     map_option fst (find (\<lambda>(_, boardPosition). boardPosition = pos) bs)"

definition getPiecePosition :: "BoardState \<Rightarrow> string \<Rightarrow> string option" where
  "getPiecePosition bs pieceName =
     map_option snd (find (\<lambda>(piece, _). piece = pieceName) bs)"

definition getSceneObject :: "obj list \<Rightarrow> string option \<Rightarrow> obj option" where
  "getSceneObject sc objectName = find (\<lambda>ob. Some (name ob) = objectName) sc"

definition getPositionObject :: "obj list \<Rightarrow> string \<Rightarrow> obj option" where
  "getPositionObject sc pos = getSceneObject sc (Some pos)"

text \<open>
  The program mutates the object that \<open>getSceneObject\<close> returned; in the model the object
  is addressed by the name it was found under, and the first object of that name is
  rewritten.
\<close>

fun modifyObject :: "string option \<Rightarrow> (obj \<Rightarrow> obj) \<Rightarrow> obj list \<Rightarrow> obj list" where
  "modifyObject objectName f [] = []"
| "modifyObject objectName f (ob # obs) =
     (if Some (name ob) = objectName then f ob # obs
      else ob # modifyObject objectName f obs)"

definition removePieceFromBoard :: "obj list \<Rightarrow> string option \<Rightarrow> obj list" where
  "removePieceFromBoard sc pieceObject =
     modifyObject pieceObject (\<lambda>ob. ob\<lparr>visible := False, frustumCulled := False\<rparr>) sc"

definition illuminateObject :: "obj list \<Rightarrow> string option \<Rightarrow> nat \<Rightarrow> obj list" where
  "illuminateObject sc object color = modifyObject object (\<lambda>ob. ob\<lparr>emissive := color\<rparr>) sc"

text \<open>\<open>position.length === 3 ? position.substring(1) : position\<close>\<close>

definition squareName :: "string \<Rightarrow> string" where
  "squareName pos = (if length pos = 3 then drop 1 pos else pos)"

definition verticalOffset :: real where
  "verticalOffset = 1475 / 100000"

definition movePieceOnBoard :: "state \<Rightarrow> string \<Rightarrow> string \<Rightarrow> state" where
  "movePieceOnBoard s from to =
     (let fromPiece = getPieceAt (boardState s) from;
          toPiece = getPieceAt (boardState s) to
      in case fromPiece of
           None \<Rightarrow> s
         | Some fp \<Rightarrow>
             if fp = [] then s
             else
               let s1 = (case toPiece of
                           None \<Rightarrow> s
                         | Some tp \<Rightarrow>
                             if tp = [] then s
                             else s\<lparr>boardState := AList.delete tp (boardState s),
                                    scene := removePieceFromBoard (scene s) (Some tp)\<rparr>)
               in (case getPositionObject (scene s1) to of
                     None \<Rightarrow> s1
                   | Some positionObject \<Rightarrow>
                       (case position positionObject of
                          (x, y, z) \<Rightarrow>
                            s1\<lparr>boardState := AList.update fp to (boardState s1),
                               scene := modifyObject (Some fp)
                                  (\<lambda>ob. ob\<lparr>position := (x, y + verticalOffset, z)\<rparr>) (scene s1)\<rparr>)))"

section \<open>Special moves\<close>

definition isKingSideCastling :: "Move \<Rightarrow> bool" where
  "isKingSideCastling move = (san move = ''O-O'')"

definition isQueenSideCastling :: "Move \<Rightarrow> bool" where
  "isQueenSideCastling move = (san move = ''O-O-O'')"

definition isCastlingMove :: "Move \<Rightarrow> bool" where
  "isCastlingMove move = (isKingSideCastling move \<or> isQueenSideCastling move)"

definition isEnPassantMove :: "Move \<Rightarrow> bool" where
  "isEnPassantMove move = (flags move = ''e'')"

definition isPromotionMove :: "Move \<Rightarrow> bool" where
  "isPromotionMove move = truthy (promotion move)"

definition files :: "char list" where
  "files = ''abcdefgh''"

fun indexOf :: "'a list \<Rightarrow> 'a \<Rightarrow> nat option" where
  "indexOf [] x = None"
| "indexOf (y # ys) x = (if y = x then Some 0 else map_option Suc (indexOf ys x))"

text \<open>
  \<open>position.split("")\<close> destructured into file and rank: the first two characters, the
  rank \<open>undefined\<close> when the string has one character only. \<open>files[i - 1]\<close> at index 0
  and \<open>files[i + 1]\<close> at index 7 are \<open>undefined\<close>.
\<close>

definition getPreviousFileSameRankPosition :: "string option \<Rightarrow> string" where
  "getPreviousFileSameRankPosition pos =
     (case pos of
        None \<Rightarrow> ''a1''
      | Some [] \<Rightarrow> ''a1''
      | Some (positionFile # rest) \<Rightarrow>
          (case indexOf files positionFile of
             None \<Rightarrow> ''a1''
           | Some positionFileIndex \<Rightarrow>
               interpolate (if positionFileIndex = 0 then None
                            else map_option (\<lambda>c. [c]) (at_index files (positionFileIndex - 1)))
               @ interpolate (map_option (\<lambda>c. [c]) (at_index rest 0))))"

definition getNextFileSameRankPosition :: "string option \<Rightarrow> string" where
  "getNextFileSameRankPosition pos =
     (case pos of
        None \<Rightarrow> ''a1''
      | Some [] \<Rightarrow> ''a1''
      | Some (positionFile # rest) \<Rightarrow>
          (case indexOf files positionFile of
             None \<Rightarrow> ''a1''
           | Some positionFileIndex \<Rightarrow>
               interpolate (map_option (\<lambda>c. [c]) (at_index files (positionFileIndex + 1)))
               @ interpolate (map_option (\<lambda>c. [c]) (at_index rest 0))))"

text \<open>
  \<open>castleRook\<close>: two \<open>if\<close> blocks in sequence. The second block is a function of its
  own here, so that a \<open>return\<close> inside the first block is the branch that does not reach
  the second.
\<close>

definition castleRook_queenSide :: "state \<Rightarrow> Move \<Rightarrow> string \<Rightarrow> string \<Rightarrow> state" where
  "castleRook_queenSide s move to pieceColour =
     (if isQueenSideCastling move then
        (case getPiecePosition (boardState s) (''rook_'' @ pieceColour @ ''_2'') of
           None \<Rightarrow> s
         | Some queenSideRookPosition \<Rightarrow>
             if queenSideRookPosition = [] then s
             else movePieceOnBoard s queenSideRookPosition
                    (getNextFileSameRankPosition (Some to)))
      else s)"

text \<open>The local \<open>pieceColour\<close> of \<open>castleRook\<close>.\<close>

definition pieceColourOf :: "state \<Rightarrow> string" where
  "pieceColourOf s = (if isPlayerTurn s then ''white'' else ''black'')"

definition castleRook :: "state \<Rightarrow> Move \<Rightarrow> string \<Rightarrow> state" where
  "castleRook s move to =
     (if isKingSideCastling move then
        (case getPiecePosition (boardState s) (''rook_'' @ pieceColourOf s @ ''_1'') of
           None \<Rightarrow> s
         | Some kingSideRookPosition \<Rightarrow>
             if kingSideRookPosition = [] then s
             else castleRook_queenSide
                    (movePieceOnBoard s kingSideRookPosition
                       (getPreviousFileSameRankPosition (Some to)))
                    move to (pieceColourOf s))
      else castleRook_queenSide s move to (pieceColourOf s))"

definition captureEnPassantPawn :: "state \<Rightarrow> state" where
  "captureEnPassantPawn s =
     (case previousMove s of
        None \<Rightarrow> s
      | Some pm \<Rightarrow>
          (case getPieceAt (boardState s) (mv_to pm) of
             None \<Rightarrow> s
           | Some capturedPiece \<Rightarrow>
               s\<lparr>boardState := (if capturedPiece = [] then boardState s
                                 else AList.delete capturedPiece (boardState s)),
                 scene := removePieceFromBoard (scene s) (Some capturedPiece)\<rparr>))"

section \<open>Promotion\<close>

text \<open>
  The two lookup tables are object literals indexed by a string; the model covers the
  four keys of the literal and the \<open>??\<close> default (a string that names a property of
  \<open>Object.prototype\<close> is outside the model). The parameter default \<open>"queen"\<close> stands
  for \<open>undefined\<close>.
\<close>

definition getPromotionPieceMoveCharacter :: "string option \<Rightarrow> string" where
  "getPromotionPieceMoveCharacter promotionPiece =
     (let p = (case promotionPiece of None \<Rightarrow> ''queen'' | Some p \<Rightarrow> p)
      in if p = ''queen'' then ''q''
         else if p = ''knight'' then ''n''
         else if p = ''bishop'' then ''b''
         else if p = ''rook'' then ''r''
         else ''q'')"

text \<open>
  \<open>getPromotionPieceObject\<close>: \<open>None\<close> is the \<open>TypeError\<close> of calling \<open>clone\<close> on
  \<open>undefined\<close>, when no scene object carries the piece type in its name.
\<close>

definition getPromotionPieceObject :: "obj list \<Rightarrow> string \<Rightarrow> obj option" where
  "getPromotionPieceObject sc promotionPiece =
     (let originalPieces = filter (\<lambda>ob. str_includes (promotionPiece @ ''_white'') (name ob)) sc
      in if originalPieces = [] then None
         else Some ((last originalPieces)
                \<lparr>name := promotionPiece @ ''_white_'' @ decimal (length originalPieces + 1)\<rparr>))"

definition addPieceAt :: "state \<Rightarrow> obj option \<Rightarrow> string \<Rightarrow> state" where
  "addPieceAt s pieceObject to =
     (case pieceObject of
        None \<Rightarrow> s
      | Some piece \<Rightarrow>
          let s1 = s\<lparr>boardState := AList.update (name piece) to (boardState s)\<rparr>
          in (case getSceneObject (scene s1) (Some to) of
                None \<Rightarrow> s1
              | Some positionObject \<Rightarrow>
                  (case position positionObject of
                     (x, y, z) \<Rightarrow>
                       s1\<lparr>scene := scene s1 @
                            [piece\<lparr>visible := True, frustumCulled := True,
                                   position := (x, y + verticalOffset, z)\<rparr>]\<rparr>)))"

definition addPromotedPiece :: "state \<Rightarrow> string \<Rightarrow> string \<Rightarrow> (error \<times> state) + state" where
  "addPromotedPiece s promotionPiece to =
     (case getPromotionPieceObject (scene s) promotionPiece of
        None \<Rightarrow> Inl (TypeError, s)
      | Some promotionPieceObject \<Rightarrow> Inr (addPieceAt s (Some promotionPieceObject) to))"

definition removePawn :: "state \<Rightarrow> state" where
  "removePawn s =
     (case selectedPiece s of
        None \<Rightarrow> s
      | Some sp \<Rightarrow>
          if sp = [] then s
          else s\<lparr>boardState := AList.delete sp (boardState s),
                 scene := removePieceFromBoard (scene s) (Some sp)\<rparr>)"

definition removePawnAndAddPromotedPiece ::
  "state \<Rightarrow> string option \<Rightarrow> string \<Rightarrow> (error \<times> state) + state" where
  "removePawnAndAddPromotedPiece s promotionPiece to =
     (case promotionPiece of
        None \<Rightarrow> Inr s
      | Some p \<Rightarrow>
          if p = [] \<or> \<not> truthy (selectedPiece s) then Inr s
          else addPromotedPiece (removePawn s) p to)"

definition shouldPromote :: "string \<Rightarrow> string \<Rightarrow> bool" where
  "shouldPromote piece to =
     (let rank = at_index to 1;
          isPawn = str_includes ''pawn'' piece
      in isPawn \<and> (rank = Some CHR ''8'' \<or> rank = Some CHR ''1''))"

section \<open>Highlighting, verdict, selection\<close>

definition illuminateSquares :: "obj list \<Rightarrow> string list \<Rightarrow> nat \<Rightarrow> obj list" where
  "illuminateSquares sc positions color =
     foldl (\<lambda>sc' pos. illuminateObject sc' (Some (squareName pos)) color) sc positions"

definition deilluminateOlderPreviousMove :: "state \<Rightarrow> state" where
  "deilluminateOlderPreviousMove s =
     (case previousMove s of
        None \<Rightarrow> s
      | Some pm \<Rightarrow> s\<lparr>scene := illuminateSquares (scene s) [mv_from pm, mv_to pm] 0x000000\<rparr>)"

definition illuminatePreviousMove :: "state \<Rightarrow> state" where
  "illuminatePreviousMove s =
     (case previousMove s of
        None \<Rightarrow> s
      | Some pm \<Rightarrow> s\<lparr>scene := illuminateSquares (scene s) [mv_from pm, mv_to pm] 0xffff00\<rparr>)"

definition setAndIlluminatePreviousMove :: "state \<Rightarrow> Move option \<Rightarrow> state" where
  "setAndIlluminatePreviousMove s move =
     illuminatePreviousMove ((deilluminateOlderPreviousMove s)\<lparr>previousMove := move\<rparr>)"

definition isGameOver :: "state \<Rightarrow> bool" where
  "isGameOver s = (isCheckmate (game s) \<or> isDraw (game s))"

definition showDrawVerdict :: "state \<Rightarrow> state" where
  "showDrawVerdict s =
     (case gameVerdict s of
        None \<Rightarrow> s
      | Some _ \<Rightarrow>
          let s1 = s\<lparr>gameVerdict := Some ''Draw!''\<rparr>
          in (case verdictModal s1 of
                None \<Rightarrow> s1
              | Some _ \<Rightarrow> s1\<lparr>verdictModal := Some True\<rparr>))"

definition showCheckmateVerdict :: "state \<Rightarrow> state" where
  "showCheckmateVerdict s =
     (let didPlayerWin = \<not> isPlayerTurn s
      in (case gameVerdict s of
            None \<Rightarrow> s
          | Some _ \<Rightarrow>
              (let s1 = s\<lparr>gameVerdict :=
                           Some (''Checkmate! ('' @ (if didPlayerWin then ''Player'' else ''Computer'')
                                 @ '' wins)'')\<rparr>
               in (case verdictModal s1 of
                     None \<Rightarrow> s1
                   | Some _ \<Rightarrow> s1\<lparr>verdictModal := Some True\<rparr>))))"

definition showGameVerdict :: "state \<Rightarrow> state" where
  "showGameVerdict s =
     (let s1 = (if isCheckmate (game s) then showCheckmateVerdict s else s)
      in if isDraw (game s1) then showDrawVerdict s1 else s1)"

definition showVerdictIfNecessary :: "state \<Rightarrow> state" where
  "showVerdictIfNecessary s = (if \<not> isGameOver s then s else showGameVerdict s)"

definition deilluminatePiece :: "obj list \<Rightarrow> string \<Rightarrow> obj list" where
  "deilluminatePiece sc pieceName = illuminateObject sc (Some pieceName) 0x000000"

definition unsetSelectedPiece :: "state \<Rightarrow> state" where
  "unsetSelectedPiece s =
     (case selectedPiece s of
        None \<Rightarrow> s
      | Some sp \<Rightarrow>
          if sp = [] then s
          else s\<lparr>scene := deilluminatePiece (scene s) sp, selectedPiece := None\<rparr>)"

definition unsetValidMoves :: "state \<Rightarrow> state" where
  "unsetValidMoves s =
     s\<lparr>scene := illuminateSquares (scene s) (map mv_to (validMoves s)) 0x000000,
       validMoves := []\<rparr>"

definition unsetSelectedPieceAndValidMoves :: "state \<Rightarrow> state" where
  "unsetSelectedPieceAndValidMoves s = unsetValidMoves (unsetSelectedPiece s)"

section \<open>The human move\<close>

text \<open>
  \<open>moveSelectedPiece\<close> is an \<open>async\<close> function with one \<open>await\<close>, on the promotion
  choice. A run of it ends in one of three ways: it returns, it throws (the \<open>catch\<close>
  block rethrows), or it is suspended on the promise that \<open>deferredPromise\<close> made, until
  \<open>onPromote\<close> calls the resolver.
\<close>

datatype completion = Returned | Threw | Suspended

definition makeBotMove :: "state \<Rightarrow> state" where
  "makeBotMove s =
     s\<lparr>botMessages := botMessages s @ [''position fen '' @ fen (game s), ''go depth 15'']\<rparr>"

text \<open>
  The \<open>try\<close> block from \<open>game.move\<close> on, with its \<open>catch\<close> and \<open>finally\<close>: what
  \<open>moveSelectedPiece\<close> runs once \<open>promotionPiece\<close> is known.
\<close>

definition moveSelectedPiece_submit ::
  "state \<Rightarrow> string \<Rightarrow> string \<Rightarrow> string option \<Rightarrow> completion \<times> state" where
  "moveSelectedPiece_submit s from to promotionPiece =
     (case game_move (game s) from to (getPromotionPieceMoveCharacter promotionPiece) of
        None \<Rightarrow> (Threw, unsetSelectedPieceAndValidMoves s)
      | Some (move, g') \<Rightarrow>
          (let s1 = s\<lparr>game := g'\<rparr>;
               s2 = (if isCastlingMove move then castleRook s1 move to else s1);
               s3 = (if isEnPassantMove move then captureEnPassantPawn s2 else s2)
           in (case (if isPromotionMove move
                     then removePawnAndAddPromotedPiece s3 promotionPiece to
                     else Inr s3) of
                 Inl (e, s4) \<Rightarrow> (Threw, unsetSelectedPieceAndValidMoves s4)
               | Inr s4 \<Rightarrow>
                   (let s5 = movePieceOnBoard s4 from to;
                        s6 = setAndIlluminatePreviousMove s5 (Some move);
                        s7 = s6\<lparr>isPlayerTurn := False\<rparr>;
                        s8 = showVerdictIfNecessary s7
                    in (Returned, unsetSelectedPieceAndValidMoves s8)))))"

text \<open>
  \<open>getPromotionPiece\<close> returns \<open>undefined\<close> at once when the modal element is absent
  (the flow goes on with no promotion piece); otherwise it shows the modal and installs
  the resolver.
\<close>

definition moveSelectedPiece :: "state \<Rightarrow> string \<Rightarrow> completion \<times> state" where
  "moveSelectedPiece s to =
     (case selectedPiece s of
        None \<Rightarrow> (Returned, s)
      | Some sp \<Rightarrow>
          if sp = [] then (Returned, s)
          else
            (case getPiecePosition (boardState s) sp of
               None \<Rightarrow> (Returned, s)
             | Some from \<Rightarrow>
                 if from = [] then (Returned, s)
                 else if shouldPromote sp to then
                   (case promotionModal s of
                      None \<Rightarrow> moveSelectedPiece_submit s from to None
                    | Some _ \<Rightarrow>
                        (Suspended,
                         s\<lparr>promotionModal := Some True, deferredResolve := Some (from, to)\<rparr>))
                 else moveSelectedPiece_submit s from to None))"

text \<open>
  \<open>moveSelectedPieceAndTriggerBotMove\<close> awaits the move and asks the opponent for its
  reply; its empty \<open>catch\<close> swallows the exception. The request to the opponent follows a
  suspended move when that move is resumed.
\<close>

definition triggerBotMove :: "completion \<times> state \<Rightarrow> state" where
  "triggerBotMove r = (case r of (c, s) \<Rightarrow> if c = Returned then makeBotMove s else s)"

definition moveSelectedPieceAndTriggerBotMove :: "state \<Rightarrow> string \<Rightarrow> state" where
  "moveSelectedPieceAndTriggerBotMove s to = triggerBotMove (moveSelectedPiece s to)"

text \<open>
  The submit event of the promotion form: no target, or the form's value for
  \<open>promotion-piece\<close> (\<open>undefined\<close> when the form has none).
\<close>

datatype SubmitEvent = SubmitEvent (target: "string option option")

text \<open>
  \<open>onPromote\<close> calls the resolver, which resolves the promise and clears itself; the
  \<open>then\<close> callback of \<open>getPromotionPiece\<close> hides the modal and passes the piece on (or
  \<open>undefined\<close> when the modal element is absent), and the suspended move continues.
\<close>

definition onPromote :: "state \<Rightarrow> SubmitEvent \<Rightarrow> state" where
  "onPromote s event =
     (case target event of
        None \<Rightarrow> s
      | Some piece \<Rightarrow>
          (case deferredResolve s of
             None \<Rightarrow> s
           | Some (from, to) \<Rightarrow>
               (let s1 = s\<lparr>deferredResolve := None\<rparr>
                in (case promotionModal s1 of
                      None \<Rightarrow> triggerBotMove (moveSelectedPiece_submit s1 from to None)
                    | Some _ \<Rightarrow>
                        triggerBotMove
                          (moveSelectedPiece_submit (s1\<lparr>promotionModal := Some False\<rparr>)
                             from to piece)))))"

section \<open>The opponent's move\<close>

text \<open>
  \<open>getBestMoveDetails\<close>: \<open>None\<close> is the \<open>TypeError\<close> of \<open>slice\<close> on \<open>undefined\<close>, when
  the message has no second word.
\<close>

definition getBestMoveDetails :: "string \<Rightarrow> (string \<times> string \<times> string) option" where
  "getBestMoveDetails bestMoveMessage =
     (case at_index (split CHR '' '' bestMoveMessage) 1 of
        None \<Rightarrow> None
      | Some bestMove \<Rightarrow> Some (slice 0 2 bestMove, slice 2 4 bestMove, slice 4 5 bestMove))"

definition pieceCharacterToPiece :: "bool \<Rightarrow> string \<Rightarrow> string" where
  "pieceCharacterToPiece playerTurn pieceCharacter =
     (let colour = (if playerTurn then ''white'' else ''black'')
      in if pieceCharacter = ''q'' then ''queen_'' @ colour
         else if pieceCharacter = ''n'' then ''knight_'' @ colour
         else if pieceCharacter = ''b'' then ''bishop_'' @ colour
         else if pieceCharacter = ''r'' then ''rook_'' @ colour
         else ''queen_'' @ colour)"

definition getPieceCharacterToPiece :: "state \<Rightarrow> string \<Rightarrow> obj option" where
  "getPieceCharacterToPiece s pieceCharacter =
     (let piece = pieceCharacterToPiece (isPlayerTurn s) pieceCharacter;
          originalPieces = filter (\<lambda>ob. str_includes piece (name ob)) (scene s)
      in if originalPieces = [] then None
         else Some ((last originalPieces)
                \<lparr>name := piece @ ''_'' @ decimal (length originalPieces + 1)\<rparr>))"

definition removePawnPiece :: "state \<Rightarrow> obj \<Rightarrow> state" where
  "removePawnPiece s pawnPiece =
     s\<lparr>boardState := AList.delete (name pawnPiece) (boardState s),
       scene := removePieceFromBoard (scene s) (Some (name pawnPiece))\<rparr>"

definition removePawnPieceAndAddPromotedPiece ::
  "state \<Rightarrow> obj option \<Rightarrow> string \<Rightarrow> obj option \<Rightarrow> state" where
  "removePawnPieceAndAddPromotedPiece s promotionPiece to pawnPiece =
     (case (promotionPiece, pawnPiece) of
        (Some _, Some pawn) \<Rightarrow> addPieceAt (removePawnPiece s pawn) promotionPiece to
      | _ \<Rightarrow> s)"

definition promotePiece :: "state \<Rightarrow> string \<Rightarrow> string \<Rightarrow> string \<Rightarrow> (error \<times> state) + state" where
  "promotePiece s promotionPiece from to =
     (case getPieceCharacterToPiece s promotionPiece of
        None \<Rightarrow> Inl (TypeError, s)
      | Some promotionPieceObject \<Rightarrow>
          (let piece = getPieceAt (boardState s) from;
               pieceObject = getSceneObject (scene s) piece
           in Inr (removePawnPieceAndAddPromotedPiece s (Some promotionPieceObject) to pieceObject)))"

text \<open>\<open>onBotMessage\<close> has no handler of its own: an exception leaves it where it was raised.\<close>

definition onBotMessage :: "state \<Rightarrow> string \<Rightarrow> (error \<times> state) + state" where
  "onBotMessage s message =
     (if \<not> str_includes ''bestmove'' message then Inr s
      else
        (case getBestMoveDetails message of
           None \<Rightarrow> Inl (TypeError, s)
         | Some (from, to, promo) \<Rightarrow>
             (case game_move (game s) from to promo of
                None \<Rightarrow> Inl (InvalidMove, s)
              | Some (move, g') \<Rightarrow>
                  (let s1 = s\<lparr>game := g'\<rparr>;
                       s2 = (if isCastlingMove move then castleRook s1 move to else s1);
                       s3 = (if isEnPassantMove move then captureEnPassantPawn s2 else s2)
                   in (case (if promo \<noteq> [] then promotePiece s3 promo from to else Inr s3) of
                         Inl (e, s4) \<Rightarrow> Inl (e, s4)
                       | Inr s4 \<Rightarrow>
                           (let s5 = movePieceOnBoard s4 from to;
                                s6 = setAndIlluminatePreviousMove s5 (Some move);
                                s7 = s6\<lparr>isPlayerTurn := True\<rparr>
                            in Inr (showVerdictIfNecessary s7)))))))"

section \<open>The initial position\<close>

definition initBoardState :: BoardState where
  "initBoardState =
     [(''pawn_white_1'', ''a2''), (''pawn_white_2'', ''b2''), (''pawn_white_3'', ''c2''),
      (''pawn_white_4'', ''d2''), (''pawn_white_5'', ''e2''), (''pawn_white_6'', ''f2''),
      (''pawn_white_7'', ''g2''), (''pawn_white_8'', ''h2''),
      (''pawn_black_1'', ''a7''), (''pawn_black_2'', ''b7''), (''pawn_black_3'', ''c7''),
      (''pawn_black_4'', ''d7''), (''pawn_black_5'', ''e7''), (''pawn_black_6'', ''f7''),
      (''pawn_black_7'', ''g7''), (''pawn_black_8'', ''h7''),
      (''rook_white_2'', ''a1''), (''knight_white_2'', ''b1''), (''bishop_white_2'', ''c1''),
      (''queen_white_1'', ''d1''), (''king_white'', ''e1''), (''bishop_white_1'', ''f1''),
      (''knight_white_1'', ''g1''), (''rook_white_1'', ''h1''),
      (''rook_black_2'', ''a8''), (''knight_black_2'', ''b8''), (''bishop_black_2'', ''c8''),
      (''queen_black_1'', ''d8''), (''king_black'', ''e8''), (''bishop_black_1'', ''f8''),
      (''knight_black_1'', ''g8''), (''rook_black_1'', ''h8'')]"

section \<open>A scene for the examples\<close>

text \<open>
  The scene comes from a model file outside the program. The examples use a scene with
  one object per square, named by its coordinate, and one object per piece of
  \<^const>\<open>initBoardState\<close>; a piece that is not on the given board is hidden, as
  \<^const>\<open>removePieceFromBoard\<close> leaves it.
\<close>

definition squareObject :: "char \<Rightarrow> char \<Rightarrow> obj" where
  "squareObject f r =
     \<lparr>name = [f, r], visible = True, frustumCulled = True,
      position = (real (of_char f), 0, real (of_char r)), emissive = 0\<rparr>"

definition sceneSquares :: "obj list" where
  "sceneSquares = concat (map (\<lambda>f. map (\<lambda>r. squareObject f r) ''12345678'') files)"

definition pieceObject :: "BoardState \<Rightarrow> string \<times> string \<Rightarrow> obj" where
  "pieceObject bs p =
     (case p of (n, home) \<Rightarrow>
        (case getPiecePosition bs n of
           None \<Rightarrow>
             \<lparr>name = n, visible = False, frustumCulled = False,
              position = (real (of_char (hd home)), verticalOffset, real (of_char (last home))),
              emissive = 0\<rparr>
         | Some sq \<Rightarrow>
             \<lparr>name = n, visible = True, frustumCulled = True,
              position = (real (of_char (hd sq)), verticalOffset, real (of_char (last sq))),
              emissive = 0\<rparr>))"

definition sceneFor :: "BoardState \<Rightarrow> obj list" where
  "sceneFor bs = map (pieceObject bs) initBoardState @ sceneSquares"

definition stateFor :: "BoardState \<Rightarrow> game \<Rightarrow> bool \<Rightarrow> Move option \<Rightarrow> state" where
  "stateFor bs g playerTurn prev =
     \<lparr>boardState = bs, scene = sceneFor bs, game = g, isPlayerTurn = playerTurn,
      selectedPiece = None, validMoves = [], previousMove = prev, deferredResolve = None,
      promotionModal = Some False, gameVerdict = Some [], verdictModal = Some False,
      botMessages = []\<rparr>"

section \<open>Auxiliary notions for the proofs\<close>

text \<open>The part of the state outside the registry and the scene.\<close>

definition control :: "state \<Rightarrow> state" where
  "control s = s\<lparr>boardState := [], scene := []\<rparr>"

text \<open>What a highlight leaves alone: name, visibility and place of every object.\<close>

definition geometry :: "obj \<Rightarrow> string \<times> bool \<times> bool \<times> (real \<times> real \<times> real)" where
  "geometry ob = (name ob, visible ob, frustumCulled ob, position ob)"

text \<open>The rook step and the en passant step, which both paths run first.\<close>

definition specialMoves :: "state \<Rightarrow> Move \<Rightarrow> string \<Rightarrow> state" where
  "specialMoves s move to =
     (let s2 = (if isCastlingMove move then castleRook s move to else s)
      in if isEnPassantMove move then captureEnPassantPawn s2 else s2)"

section \<open>The engine's board as the program can see it\<close>

text \<open>
  The program sees the engine's board through its position string only (Forsyth-Edwards
  notation: the ranks 8 to 1 separated by \<open>/\<close>, a digit for a run of empty squares, a
  letter for a piece). A square is occupied on the engine's board when the string has a
  letter for it; it is occupied in the registry when some identity is mapped to it.
\<close>

fun expandRank :: "string \<Rightarrow> bool list" where
  "expandRank [] = []"
| "expandRank (c # cs) =
     (case indexOf ''12345678'' c of
        Some k \<Rightarrow> replicate (Suc k) False
      | None \<Rightarrow> [True]) @ expandRank cs"

definition fenOccupied :: "string \<Rightarrow> string \<Rightarrow> bool" where
  "fenOccupied positionString sq =
     (case sq of
        [f, r] \<Rightarrow>
          (case (indexOf files f, indexOf ''87654321'' r) of
             (Some i, Some j) \<Rightarrow>
               (case at_index (split CHR ''/'' (takeWhile (\<lambda>c. c \<noteq> CHR '' '') positionString)) j of
                  Some row \<Rightarrow> (case at_index (expandRank row) i of Some b \<Rightarrow> b | None \<Rightarrow> False)
                | None \<Rightarrow> False)
           | _ \<Rightarrow> False)
      | _ \<Rightarrow> False)"

definition registryOccupied :: "BoardState \<Rightarrow> string \<Rightarrow> bool" where
  "registryOccupied bs sq = (getPieceAt bs sq \<noteq> None)"

definition allSquares :: "string list" where
  "allSquares = concat (map (\<lambda>f. map (\<lambda>r. [f, r]) ''12345678'') files)"

definition sameOccupancy :: "state \<Rightarrow> bool" where
  "sameOccupancy s =
     list_all (\<lambda>sq. registryOccupied (boardState s) sq = fenOccupied (fen (game s)) sq) allSquares"

section \<open>The registry on its own\<close>

text \<open>
  What the executor's steps do to the registry, as functions of the registry, the turn
  flag, the previous move and the set of names in the scene (\<open>has\<close>). The lemmas of
  section \<open>Names in the scene, entries in the registry\<close> prove that these are the
  \<^const>\<open>boardState\<close> of the steps above.
\<close>

definition moveEntry :: "BoardState \<Rightarrow> bool \<Rightarrow> string \<Rightarrow> string \<Rightarrow> BoardState" where
  "moveEntry bs hasSquare from to =
     (case getPieceAt bs from of
        None \<Rightarrow> bs
      | Some fp \<Rightarrow>
          if fp = [] then bs
          else
            (let bs1 = (case getPieceAt bs to of
                          None \<Rightarrow> bs
                        | Some tp \<Rightarrow> if tp = [] then bs else AList.delete tp bs)
             in if hasSquare then AList.update fp to bs1 else bs1))"

definition castleEntries_queenSide ::
  "BoardState \<Rightarrow> (string \<Rightarrow> bool) \<Rightarrow> Move \<Rightarrow> string \<Rightarrow> string \<Rightarrow> BoardState" where
  "castleEntries_queenSide bs has move to pieceColour =
     (if isQueenSideCastling move then
        (case getPiecePosition bs (''rook_'' @ pieceColour @ ''_2'') of
           None \<Rightarrow> bs
         | Some p \<Rightarrow>
             if p = [] then bs
             else moveEntry bs (has (getNextFileSameRankPosition (Some to))) p
                    (getNextFileSameRankPosition (Some to)))
      else bs)"

definition castleEntries ::
  "BoardState \<Rightarrow> (string \<Rightarrow> bool) \<Rightarrow> bool \<Rightarrow> Move \<Rightarrow> string \<Rightarrow> BoardState" where
  "castleEntries bs has playerTurn move to =
     (let pieceColour = (if playerTurn then ''white'' else ''black'')
      in if isKingSideCastling move then
           (case getPiecePosition bs (''rook_'' @ pieceColour @ ''_1'') of
              None \<Rightarrow> bs
            | Some p \<Rightarrow>
                if p = [] then bs
                else castleEntries_queenSide
                       (moveEntry bs (has (getPreviousFileSameRankPosition (Some to))) p
                          (getPreviousFileSameRankPosition (Some to)))
                       has move to pieceColour)
         else castleEntries_queenSide bs has move to pieceColour)"

definition captureEntry :: "BoardState \<Rightarrow> Move option \<Rightarrow> BoardState" where
  "captureEntry bs prev =
     (case prev of
        None \<Rightarrow> bs
      | Some pm \<Rightarrow>
          (case getPieceAt bs (mv_to pm) of
             None \<Rightarrow> bs
           | Some capturedPiece \<Rightarrow>
               if capturedPiece = [] then bs else AList.delete capturedPiece bs))"

definition specialEntries ::
  "BoardState \<Rightarrow> (string \<Rightarrow> bool) \<Rightarrow> bool \<Rightarrow> Move option \<Rightarrow> Move \<Rightarrow> string \<Rightarrow> BoardState" where
  "specialEntries bs has playerTurn prev move to =
     (let bs2 = (if isCastlingMove move then castleEntries bs has playerTurn move to else bs)
      in if isEnPassantMove move then captureEntry bs2 prev else bs2)"

definition hasName :: "state \<Rightarrow> string \<Rightarrow> bool" where
  "hasName s n = (n \<in> set (map name (scene s)))"

text \<open>How many of the given names contain a pattern.\<close>

definition countNamed :: "string \<Rightarrow> string list \<Rightarrow> nat" where
  "countNamed pat names = length (filter (str_includes pat) names)"

text \<open>The renderable of a name (the first object of that name) is there and not visible.\<close>

definition hidden :: "obj list \<Rightarrow> string \<Rightarrow> bool" where
  "hidden sc n = (case getSceneObject sc (Some n) of None \<Rightarrow> False | Some ob \<Rightarrow> \<not> visible ob)"


section \<open>Example positions\<close>

definition mkMove :: "string \<Rightarrow> string \<Rightarrow> string \<Rightarrow> string \<Rightarrow> string option \<Rightarrow> Move" where
  "mkMove f t s fl p = \<lparr>mv_from = f, mv_to = t, san = s, flags = fl, promotion = p\<rparr>"

text \<open>
  After 1. Nf3 Nf6: the square g1 is empty. The engine's table holds no reply for the
  requests made in the examples on this position, which are illegal moves.
\<close>

definition knightsOutBoard :: BoardState where
  "knightsOutBoard =
     [(''pawn_white_1'', ''a2''), (''pawn_white_2'', ''b2''), (''pawn_white_3'', ''c2''),
      (''pawn_white_4'', ''d2''), (''pawn_white_5'', ''e2''), (''pawn_white_6'', ''f2''),
      (''pawn_white_7'', ''g2''), (''pawn_white_8'', ''h2''),
      (''pawn_black_1'', ''a7''), (''pawn_black_2'', ''b7''), (''pawn_black_3'', ''c7''),
      (''pawn_black_4'', ''d7''), (''pawn_black_5'', ''e7''), (''pawn_black_6'', ''f7''),
      (''pawn_black_7'', ''g7''), (''pawn_black_8'', ''h7''),
      (''rook_white_2'', ''a1''), (''knight_white_2'', ''b1''), (''bishop_white_2'', ''c1''),
      (''queen_white_1'', ''d1''), (''king_white'', ''e1''), (''bishop_white_1'', ''f1''),
      (''knight_white_1'', ''f3''), (''rook_white_1'', ''h1''),
      (''rook_black_2'', ''a8''), (''knight_black_2'', ''b8''), (''bishop_black_2'', ''c8''),
      (''queen_black_1'', ''d8''), (''king_black'', ''e8''), (''bishop_black_1'', ''f8''),
      (''knight_black_1'', ''f6''), (''rook_black_1'', ''h8'')]"

definition knightsOutGame :: game where
  "knightsOutGame =
     Game [] False False ''rnbqkb1r/pppppppp/5n2/8/8/5N2/PPPPPPPP/RNBQKB1R w KQkq - 2 2''"

definition knightsOutState :: state where
  "knightsOutState =
     stateFor knightsOutBoard knightsOutGame True
       (Some (mkMove ''g8'' ''f6'' ''Nf6'' ''n'' None))"

text \<open>
  White king on g6 and queen on a7, black king on h8, the human to move with the white
  queen selected, 99 half-moves since the last capture or pawn move. The queen mates on
  h7; the move is the hundredth half-move, and the engine, whose draw query counts the
  half-moves, reports checkmate and draw together.
\<close>

definition mateOnHundredthHalfMoveState :: state where
  "mateOnHundredthHalfMoveState =
     (stateFor
        [(''queen_white_1'', ''a7''), (''king_white'', ''g6''), (''king_black'', ''h8'')]
        (Game [((''a7'', ''h7'', ''q''), mkMove ''a7'' ''h7'' ''Qh7#'' ''n'' None,
                Game [] True True ''7k/7Q/6K1/8/8/8/8/8 b - - 100 80'')]
           False False ''7k/Q7/6K1/8/8/8/8/8 w - - 99 80'')
        True (Some (mkMove ''g8'' ''h8'' ''Kh8'' ''n'' None)))
     \<lparr>selectedPiece := Some ''queen_white_1''\<rparr>"

text \<open>
  A white pawn on a7, a black knight on b8, the kings on e1 and e8, the human to move:
  the pawn may take the knight and promote, or step to a8 and promote. The engine's
  table holds the eight promotions.
\<close>

definition promotionGame :: game where
  "promotionGame =
     Game
       [((''a7'', ''b8'', ''q''), mkMove ''a7'' ''b8'' ''axb8=Q+'' ''cp'' (Some ''q''),
           Game [] False False ''1Q2k3/8/8/8/8/8/8/4K3 b - - 0 1''),
        ((''a7'', ''b8'', ''n''), mkMove ''a7'' ''b8'' ''axb8=N'' ''cp'' (Some ''n''),
           Game [] False True ''1N2k3/8/8/8/8/8/8/4K3 b - - 0 1''),
        ((''a7'', ''b8'', ''b''), mkMove ''a7'' ''b8'' ''axb8=B'' ''cp'' (Some ''b''),
           Game [] False True ''1B2k3/8/8/8/8/8/8/4K3 b - - 0 1''),
        ((''a7'', ''b8'', ''r''), mkMove ''a7'' ''b8'' ''axb8=R+'' ''cp'' (Some ''r''),
           Game [] False False ''1R2k3/8/8/8/8/8/8/4K3 b - - 0 1''),
        ((''a7'', ''a8'', ''q''), mkMove ''a7'' ''a8'' ''a8=Q'' ''np'' (Some ''q''),
           Game [] False False ''Qn2k3/8/8/8/8/8/8/4K3 b - - 0 1''),
        ((''a7'', ''a8'', ''n''), mkMove ''a7'' ''a8'' ''a8=N'' ''np'' (Some ''n''),
           Game [] False False ''Nn2k3/8/8/8/8/8/8/4K3 b - - 0 1''),
        ((''a7'', ''a8'', ''b''), mkMove ''a7'' ''a8'' ''a8=B'' ''np'' (Some ''b''),
           Game [] False False ''Bn2k3/8/8/8/8/8/8/4K3 b - - 0 1''),
        ((''a7'', ''a8'', ''r''), mkMove ''a7'' ''a8'' ''a8=R'' ''np'' (Some ''r''),
           Game [] False False ''Rn2k3/8/8/8/8/8/8/4K3 b - - 0 1'')]
       False False ''1n2k3/P7/8/8/8/8/8/4K3 w - - 0 1''"

definition promotionBoard :: BoardState where
  "promotionBoard =
     [(''pawn_white_1'', ''a7''), (''king_white'', ''e1''), (''knight_black_2'', ''b8''),
      (''king_black'', ''e8'')]"

definition promotionState :: state where
  "promotionState =
     (stateFor promotionBoard promotionGame True (Some (mkMove ''d8'' ''e8'' ''Ke8'' ''n'' None)))
     \<lparr>selectedPiece := Some ''pawn_white_1''\<rparr>"

text \<open>
  White king on e1 and rook on h1, neither has moved; the human to move. With the black
  king on f8 castling gives check on the f-file and the engine writes it \<open>O-O+\<close>; with
  the black king on a8 it gives no check and is written \<open>O-O\<close>.
\<close>

definition castleWithCheckState :: state where
  "castleWithCheckState =
     (stateFor
        [(''king_white'', ''e1''), (''rook_white_1'', ''h1''), (''king_black'', ''f8'')]
        (Game [((''e1'', ''g1'', ''q''), mkMove ''e1'' ''g1'' ''O-O+'' ''k'' None,
                Game [] False False ''5k2/8/8/8/8/8/8/5RK1 b - - 1 1'')]
           False False ''5k2/8/8/8/8/8/8/4K2R w K - 0 1'')
        True (Some (mkMove ''e8'' ''f8'' ''Kf8'' ''n'' None)))
     \<lparr>selectedPiece := Some ''king_white''\<rparr>"

definition castleWithoutCheckState :: state where
  "castleWithoutCheckState =
     (stateFor
        [(''king_white'', ''e1''), (''rook_white_1'', ''h1''), (''king_black'', ''a8'')]
        (Game [((''e1'', ''g1'', ''q''), mkMove ''e1'' ''g1'' ''O-O'' ''k'' None,
                Game [] False False ''k7/8/8/8/8/8/8/5RK1 b - - 1 1'')]
           False False ''k7/8/8/8/8/8/8/4K2R w K - 0 1'')
        True (Some (mkMove ''b8'' ''a8'' ''Ka8'' ''n'' None)))
     \<lparr>selectedPiece := Some ''king_white''\<rparr>"

text \<open>
  Black king on e8 and rook on a8, neither has moved, the white king on d1; the opponent
  to move. Castling long puts the rook on d8 and gives check: \<open>O-O-O+\<close>.
\<close>

definition longCastleWithCheckState :: state where
  "longCastleWithCheckState =
     stateFor
        [(''king_white'', ''d1''), (''rook_black_2'', ''a8''), (''king_black'', ''e8'')]
        (Game [((''e8'', ''c8'', ''''), mkMove ''e8'' ''c8'' ''O-O-O+'' ''q'' None,
                Game [] False False ''2kr4/8/8/8/8/8/8/3K4 w - - 2 2'')]
           False False ''r3k3/8/8/8/8/8/8/3K4 b q - 1 1'')
        False (Some (mkMove ''e1'' ''d1'' ''Kd1'' ''n'' None))"

text \<open>
  A black pawn on a2 about to promote on a1, the opponent to move. The engine accepts
  the four promotion letters and no other.
\<close>

definition blackPromotionState :: state where
  "blackPromotionState =
     stateFor
        [(''pawn_black_1'', ''a2''), (''king_white'', ''h3''), (''king_black'', ''e8'')]
        (Game [((''a2'', ''a1'', ''q''), mkMove ''a2'' ''a1'' ''a1=Q'' ''np'' (Some ''q''),
                  Game [] False False ''4k3/8/8/8/8/7K/8/q7 w - - 0 2''),
               ((''a2'', ''a1'', ''n''), mkMove ''a2'' ''a1'' ''a1=N'' ''np'' (Some ''n''),
                  Game [] False True ''4k3/8/8/8/8/7K/8/n7 w - - 0 2''),
               ((''a2'', ''a1'', ''b''), mkMove ''a2'' ''a1'' ''a1=B'' ''np'' (Some ''b''),
                  Game [] False True ''4k3/8/8/8/8/7K/8/b7 w - - 0 2''),
               ((''a2'', ''a1'', ''r''), mkMove ''a2'' ''a1'' ''a1=R'' ''np'' (Some ''r''),
                  Game [] False False ''4k3/8/8/8/8/7K/8/r7 w - - 0 2'')]
           False False ''4k3/8/8/8/8/7K/p7/8 b - - 0 1'')
        False (Some (mkMove ''h2'' ''h3'' ''Kh3'' ''n'' None))"

text \<open>
  After 1. e4 a6 2. e5 d5, with the white pawn of e5 selected: it may take the pawn of
  d5 en passant. And after 1. a3 d5 2. a4 d4 3. e4, the opponent to move: the black pawn
  of d4 may take the pawn of e4 en passant.
\<close>

definition enPassantState :: state where
  "enPassantState =
     (stateFor
        [(''pawn_white_1'', ''a2''), (''pawn_white_2'', ''b2''), (''pawn_white_3'', ''c2''),
         (''pawn_white_4'', ''d2''), (''pawn_white_5'', ''e5''), (''pawn_white_6'', ''f2''),
         (''pawn_white_7'', ''g2''), (''pawn_white_8'', ''h2''),
         (''pawn_black_1'', ''a6''), (''pawn_black_2'', ''b7''), (''pawn_black_3'', ''c7''),
         (''pawn_black_4'', ''d5''), (''pawn_black_5'', ''e7''), (''pawn_black_6'', ''f7''),
         (''pawn_black_7'', ''g7''), (''pawn_black_8'', ''h7''),
         (''rook_white_2'', ''a1''), (''knight_white_2'', ''b1''), (''bishop_white_2'', ''c1''),
         (''queen_white_1'', ''d1''), (''king_white'', ''e1''), (''bishop_white_1'', ''f1''),
         (''knight_white_1'', ''g1''), (''rook_white_1'', ''h1''),
         (''rook_black_2'', ''a8''), (''knight_black_2'', ''b8''), (''bishop_black_2'', ''c8''),
         (''queen_black_1'', ''d8''), (''king_black'', ''e8''), (''bishop_black_1'', ''f8''),
         (''knight_black_1'', ''g8''), (''rook_black_1'', ''h8'')]
        (Game [((''e5'', ''d6'', ''q''), mkMove ''e5'' ''d6'' ''exd6'' ''e'' None,
                Game [] False False
                  ''rnbqkbnr/1pp1pppp/p2P4/8/8/8/PPPP1PPP/RNBQKBNR b KQkq - 0 3'')]
           False False ''rnbqkbnr/1pp1pppp/p7/3pP3/8/8/PPPP1PPP/RNBQKBNR w KQkq d6 0 3'')
        True (Some (mkMove ''d7'' ''d5'' ''d5'' ''b'' None)))
     \<lparr>selectedPiece := Some ''pawn_white_5''\<rparr>"

definition enPassantByOpponentState :: state where
  "enPassantByOpponentState =
     stateFor
        [(''pawn_white_1'', ''a4''), (''pawn_white_2'', ''b2''), (''pawn_white_3'', ''c2''),
         (''pawn_white_4'', ''d2''), (''pawn_white_5'', ''e4''), (''pawn_white_6'', ''f2''),
         (''pawn_white_7'', ''g2''), (''pawn_white_8'', ''h2''),
         (''pawn_black_1'', ''a7''), (''pawn_black_2'', ''b7''), (''pawn_black_3'', ''c7''),
         (''pawn_black_4'', ''d4''), (''pawn_black_5'', ''e7''), (''pawn_black_6'', ''f7''),
         (''pawn_black_7'', ''g7''), (''pawn_black_8'', ''h7''),
         (''rook_white_2'', ''a1''), (''knight_white_2'', ''b1''), (''bishop_white_2'', ''c1''),
         (''queen_white_1'', ''d1''), (''king_white'', ''e1''), (''bishop_white_1'', ''f1''),
         (''knight_white_1'', ''g1''), (''rook_white_1'', ''h1''),
         (''rook_black_2'', ''a8''), (''knight_black_2'', ''b8''), (''bishop_black_2'', ''c8''),
         (''queen_black_1'', ''d8''), (''king_black'', ''e8''), (''bishop_black_1'', ''f8''),
         (''knight_black_1'', ''g8''), (''rook_black_1'', ''h8'')]
        (Game [((''d4'', ''e3'', ''''), mkMove ''d4'' ''e3'' ''dxe3'' ''e'' None,
                Game [] False False
                  ''rnbqkbnr/ppp1pppp/8/8/P7/4p3/1PPP1PPP/RNBQKBNR w KQkq - 0 4'')]
           False False ''rnbqkbnr/ppp1pppp/8/8/P2pP3/8/1PPP1PPP/RNBQKBNR b KQkq e3 0 3'')
        False (Some (mkMove ''e2'' ''e4'' ''e4'' ''b'' None))"

section \<open>Decimal digits\<close>




section \<open>Frame lemmas\<close>

lemma control_eqD:
  assumes "control s' = control s"
  shows "game s' = game s" "isPlayerTurn s' = isPlayerTurn s" "selectedPiece s' = selectedPiece s"
    "validMoves s' = validMoves s" "previousMove s' = previousMove s"
    "deferredResolve s' = deferredResolve s" "promotionModal s' = promotionModal s"
    "gameVerdict s' = gameVerdict s" "verdictModal s' = verdictModal s"
    "botMessages s' = botMessages s"
  using arg_cong [OF assms, of game] arg_cong [OF assms, of isPlayerTurn]
    arg_cong [OF assms, of selectedPiece] arg_cong [OF assms, of validMoves]
    arg_cong [OF assms, of previousMove] arg_cong [OF assms, of deferredResolve]
    arg_cong [OF assms, of promotionModal] arg_cong [OF assms, of gameVerdict]
    arg_cong [OF assms, of verdictModal] arg_cong [OF assms, of botMessages]
  by (simp_all add: control_def)

lemma control_movePieceOnBoard [simp]: "control (movePieceOnBoard s from to) = control s"
  by (simp add: movePieceOnBoard_def control_def Let_def split: option.split prod.split)

lemma control_castleRook_queenSide [simp]:
  "control (castleRook_queenSide s move to c) = control s"
  by (simp add: castleRook_queenSide_def split: option.split)

lemma control_castleRook [simp]: "control (castleRook s move to) = control s"
  by (simp add: castleRook_def split: option.split)

lemma control_captureEnPassantPawn [simp]: "control (captureEnPassantPawn s) = control s"
  by (simp add: captureEnPassantPawn_def control_def split: option.split)

lemma control_addPieceAt [simp]: "control (addPieceAt s p to) = control s"
  by (simp add: addPieceAt_def control_def Let_def split: option.split prod.split)

lemma control_removePawn [simp]: "control (removePawn s) = control s"
  by (simp add: removePawn_def control_def split: option.split)

lemma control_removePawnPiece [simp]: "control (removePawnPiece s p) = control s"
  by (simp add: removePawnPiece_def control_def)

lemma control_removePawnPieceAndAddPromotedPiece [simp]:
  "control (removePawnPieceAndAddPromotedPiece s p to q) = control s"
  by (simp add: removePawnPieceAndAddPromotedPiece_def split: option.split)

lemma control_removePawnAndAddPromotedPiece:
  "removePawnAndAddPromotedPiece s pp to = Inr s' \<Longrightarrow> control s' = control s"
  "removePawnAndAddPromotedPiece s pp to = Inl (e, s') \<Longrightarrow> control s' = control s"
  by (auto simp: removePawnAndAddPromotedPiece_def addPromotedPiece_def
      split: option.splits if_splits)

lemma control_promotePiece:
  "promotePiece s p from to = Inr s' \<Longrightarrow> control s' = control s"
  "promotePiece s p from to = Inl (e, s') \<Longrightarrow> control s' = control s"
  by (auto simp: promotePiece_def Let_def split: option.splits)

lemmas movePieceOnBoard_frame [simp] = control_eqD [OF control_movePieceOnBoard]
lemmas castleRook_frame [simp] = control_eqD [OF control_castleRook]
lemmas captureEnPassantPawn_frame [simp] = control_eqD [OF control_captureEnPassantPawn]
lemmas addPieceAt_frame [simp] = control_eqD [OF control_addPieceAt]
lemmas removePawn_frame [simp] = control_eqD [OF control_removePawn]

lemma setAndIlluminatePreviousMove_frame [simp]:
  "game (setAndIlluminatePreviousMove s m) = game s"
  "boardState (setAndIlluminatePreviousMove s m) = boardState s"
  "isPlayerTurn (setAndIlluminatePreviousMove s m) = isPlayerTurn s"
  "selectedPiece (setAndIlluminatePreviousMove s m) = selectedPiece s"
  "validMoves (setAndIlluminatePreviousMove s m) = validMoves s"
  "previousMove (setAndIlluminatePreviousMove s m) = m"
  "deferredResolve (setAndIlluminatePreviousMove s m) = deferredResolve s"
  "promotionModal (setAndIlluminatePreviousMove s m) = promotionModal s"
  "gameVerdict (setAndIlluminatePreviousMove s m) = gameVerdict s"
  "verdictModal (setAndIlluminatePreviousMove s m) = verdictModal s"
  "botMessages (setAndIlluminatePreviousMove s m) = botMessages s"
  by (simp_all add: setAndIlluminatePreviousMove_def illuminatePreviousMove_def
        deilluminateOlderPreviousMove_def split: option.split)

lemma showVerdictIfNecessary_frame [simp]:
  "game (showVerdictIfNecessary s) = game s"
  "boardState (showVerdictIfNecessary s) = boardState s"
  "scene (showVerdictIfNecessary s) = scene s"
  "isPlayerTurn (showVerdictIfNecessary s) = isPlayerTurn s"
  "selectedPiece (showVerdictIfNecessary s) = selectedPiece s"
  "validMoves (showVerdictIfNecessary s) = validMoves s"
  "previousMove (showVerdictIfNecessary s) = previousMove s"
  "deferredResolve (showVerdictIfNecessary s) = deferredResolve s"
  "promotionModal (showVerdictIfNecessary s) = promotionModal s"
  "botMessages (showVerdictIfNecessary s) = botMessages s"
  by (simp_all add: showVerdictIfNecessary_def showGameVerdict_def showCheckmateVerdict_def
        showDrawVerdict_def Let_def split: option.split)

lemma unsetSelectedPieceAndValidMoves_frame [simp]:
  "game (unsetSelectedPieceAndValidMoves s) = game s"
  "boardState (unsetSelectedPieceAndValidMoves s) = boardState s"
  "isPlayerTurn (unsetSelectedPieceAndValidMoves s) = isPlayerTurn s"
  "validMoves (unsetSelectedPieceAndValidMoves s) = []"
  "previousMove (unsetSelectedPieceAndValidMoves s) = previousMove s"
  "deferredResolve (unsetSelectedPieceAndValidMoves s) = deferredResolve s"
  "promotionModal (unsetSelectedPieceAndValidMoves s) = promotionModal s"
  "gameVerdict (unsetSelectedPieceAndValidMoves s) = gameVerdict s"
  "verdictModal (unsetSelectedPieceAndValidMoves s) = verdictModal s"
  "botMessages (unsetSelectedPieceAndValidMoves s) = botMessages s"
  by (simp_all add: unsetSelectedPieceAndValidMoves_def unsetValidMoves_def unsetSelectedPiece_def
        split: option.split)

lemma unsetSelectedPieceAndValidMoves_selection [simp]:
  "\<not> truthy (selectedPiece (unsetSelectedPieceAndValidMoves s))"
  by (simp add: unsetSelectedPieceAndValidMoves_def unsetValidMoves_def unsetSelectedPiece_def
        truthy_def split: option.split)

lemma unsetSelectedPieceAndValidMoves_selected:
  "selectedPiece s = Some sp \<Longrightarrow> sp \<noteq> [] \<Longrightarrow>
   selectedPiece (unsetSelectedPieceAndValidMoves s) = None"
  by (simp add: unsetSelectedPieceAndValidMoves_def unsetValidMoves_def unsetSelectedPiece_def)

lemma makeBotMove_frame [simp]:
  "game (makeBotMove s) = game s"
  "boardState (makeBotMove s) = boardState s"
  "scene (makeBotMove s) = scene s"
  "isPlayerTurn (makeBotMove s) = isPlayerTurn s"
  "selectedPiece (makeBotMove s) = selectedPiece s"
  "validMoves (makeBotMove s) = validMoves s"
  "previousMove (makeBotMove s) = previousMove s"
  "deferredResolve (makeBotMove s) = deferredResolve s"
  "promotionModal (makeBotMove s) = promotionModal s"
  "gameVerdict (makeBotMove s) = gameVerdict s"
  "verdictModal (makeBotMove s) = verdictModal s"
  by (simp_all add: makeBotMove_def)

lemma geometry_modifyObject:
  "(\<And>ob. geometry (f ob) = geometry ob) \<Longrightarrow>
   map geometry (modifyObject n f sc) = map geometry sc"
  by (induction sc) simp_all

lemma geometry_illuminateObject [simp]:
  "map geometry (illuminateObject sc n c) = map geometry sc"
  by (simp add: illuminateObject_def geometry_modifyObject geometry_def)

lemma geometry_illuminateSquares [simp]:
  "map geometry (illuminateSquares sc ps c) = map geometry sc"
  unfolding illuminateSquares_def
  by (induction ps arbitrary: sc) simp_all

lemma geometry_unsetSelectedPieceAndValidMoves [simp]:
  "map geometry (scene (unsetSelectedPieceAndValidMoves s)) = map geometry (scene s)"
  by (simp add: unsetSelectedPieceAndValidMoves_def unsetValidMoves_def unsetSelectedPiece_def
        deilluminatePiece_def split: option.split)

lemma geometry_setAndIlluminatePreviousMove [simp]:
  "map geometry (scene (setAndIlluminatePreviousMove s m)) = map geometry (scene s)"
  by (simp add: setAndIlluminatePreviousMove_def illuminatePreviousMove_def
        deilluminateOlderPreviousMove_def split: option.split)

section \<open>The move after the promotion choice\<close>

lemma submit_rejected:
  "game_move (game s) from to (getPromotionPieceMoveCharacter pp) = None \<Longrightarrow>
   moveSelectedPiece_submit s from to pp = (Threw, unsetSelectedPieceAndValidMoves s)"
  by (simp add: moveSelectedPiece_submit_def)

lemma control_specialMoves [simp]: "control (specialMoves s move to) = control s"
  by (simp add: specialMoves_def Let_def)

lemmas specialMoves_frame [simp] = control_eqD [OF control_specialMoves]

lemma submit_not_promotion:
  "game_move (game s) from to (getPromotionPieceMoveCharacter pp) = Some (move, g') \<Longrightarrow>
   \<not> isPromotionMove move \<Longrightarrow>
   moveSelectedPiece_submit s from to pp =
     (Returned, unsetSelectedPieceAndValidMoves (showVerdictIfNecessary
        ((setAndIlluminatePreviousMove
           (movePieceOnBoard (specialMoves (s\<lparr>game := g'\<rparr>) move to) from to)
           (Some move))\<lparr>isPlayerTurn := False\<rparr>)))"
  by (simp add: moveSelectedPiece_submit_def specialMoves_def Let_def)

lemma submit_promotion:
  "game_move (game s) from to (getPromotionPieceMoveCharacter pp) = Some (move, g') \<Longrightarrow>
   isPromotionMove move \<Longrightarrow>
   moveSelectedPiece_submit s from to pp =
     (case removePawnAndAddPromotedPiece (specialMoves (s\<lparr>game := g'\<rparr>) move to) pp to of
        Inl (e, s4) \<Rightarrow> (Threw, unsetSelectedPieceAndValidMoves s4)
      | Inr s4 \<Rightarrow>
          (Returned, unsetSelectedPieceAndValidMoves (showVerdictIfNecessary
             ((setAndIlluminatePreviousMove (movePieceOnBoard s4 from to) (Some move))
                \<lparr>isPlayerTurn := False\<rparr>))))"
  by (simp add: moveSelectedPiece_submit_def specialMoves_def Let_def
      cong del: sum.case_cong_weak prod.case_cong_weak)

lemma submit_not_suspended [simp]: "fst (moveSelectedPiece_submit s from to pp) \<noteq> Suspended"
proof (cases "game_move (game s) from to (getPromotionPieceMoveCharacter pp)")
  case None
  then show ?thesis by (simp add: submit_rejected)
next
  case (Some r)
  obtain move g' where r: "r = (move, g')" by (cases r)
  show ?thesis
  proof (cases "isPromotionMove move")
    case True
    then show ?thesis using Some r
      by (simp add: submit_promotion split: sum.split prod.split)
  next
    case False
    then show ?thesis using Some r by (simp add: submit_not_promotion)
  qed
qed

lemma submit_deferredResolve [simp]:
  "deferredResolve (snd (moveSelectedPiece_submit s from to pp)) = deferredResolve s"
proof (cases "game_move (game s) from to (getPromotionPieceMoveCharacter pp)")
  case None
  then show ?thesis by (simp add: submit_rejected)
next
  case (Some r)
  obtain move g' where r: "r = (move, g')" by (cases r)
  show ?thesis
  proof (cases "isPromotionMove move")
    case True
    then show ?thesis using Some r
      by (auto simp: submit_promotion
          dest!: control_removePawnAndAddPromotedPiece [THEN control_eqD(6)]
          split: sum.split)
  next
    case False
    then show ?thesis using Some r by (simp add: submit_not_promotion)
  qed
qed

lemma triggerBotMove_deferredResolve [simp]:
  "deferredResolve (triggerBotMove r) = deferredResolve (snd r)"
  by (cases r) (simp add: triggerBotMove_def)

lemma moveSelectedPiece_suspended_iff:
  assumes "selectedPiece s = Some sp" "sp \<noteq> []"
    "getPiecePosition (boardState s) sp = Some from" "from \<noteq> []"
  shows "fst (moveSelectedPiece s to) = Suspended \<longleftrightarrow>
         shouldPromote sp to \<and> promotionModal s \<noteq> None"
  using assms by (auto simp: moveSelectedPiece_def split: option.split)


lemma moveSelectedPieceAndTriggerBotMove_suspended:
  assumes "selectedPiece s = Some sp" "sp \<noteq> []"
    "getPiecePosition (boardState s) sp = Some from" "from \<noteq> []"
    "shouldPromote sp to" "promotionModal s \<noteq> None"
  shows "moveSelectedPieceAndTriggerBotMove s to =
         s\<lparr>promotionModal := Some True, deferredResolve := Some (from, to)\<rparr>"
  using assms
  by (auto simp: moveSelectedPieceAndTriggerBotMove_def moveSelectedPiece_def triggerBotMove_def)

lemma moveSelectedPieceAndTriggerBotMove_direct:
  assumes "selectedPiece s = Some sp" "sp \<noteq> []"
    "getPiecePosition (boardState s) sp = Some from" "from \<noteq> []"
    "\<not> shouldPromote sp to"
  shows "moveSelectedPieceAndTriggerBotMove s to =
         triggerBotMove (moveSelectedPiece_submit s from to None)"
  using assms
  by (simp add: moveSelectedPieceAndTriggerBotMove_def moveSelectedPiece_def)

section \<open>The opponent's move, step by step\<close>

lemma onBotMessage_ignored:
  "\<not> str_includes ''bestmove'' message \<Longrightarrow> onBotMessage s message = Inr s"
  by (simp add: onBotMessage_def)

lemma onBotMessage_rejected:
  "str_includes ''bestmove'' message \<Longrightarrow> getBestMoveDetails message = Some (from, to, promo) \<Longrightarrow>
   game_move (game s) from to promo = None \<Longrightarrow>
   onBotMessage s message = Inl (InvalidMove, s)"
  by (simp add: onBotMessage_def)

lemma onBotMessage_plain:
  "str_includes ''bestmove'' message \<Longrightarrow> getBestMoveDetails message = Some (from, to, []) \<Longrightarrow>
   game_move (game s) from to [] = Some (move, g') \<Longrightarrow>
   onBotMessage s message =
     Inr (showVerdictIfNecessary
        ((setAndIlluminatePreviousMove
           (movePieceOnBoard (specialMoves (s\<lparr>game := g'\<rparr>) move to) from to)
           (Some move))\<lparr>isPlayerTurn := True\<rparr>))"
  by (simp add: onBotMessage_def specialMoves_def Let_def)

lemma onBotMessage_promotion:
  "str_includes ''bestmove'' message \<Longrightarrow> getBestMoveDetails message = Some (from, to, promo) \<Longrightarrow>
   promo \<noteq> [] \<Longrightarrow> game_move (game s) from to promo = Some (move, g') \<Longrightarrow>
   onBotMessage s message =
     (case promotePiece (specialMoves (s\<lparr>game := g'\<rparr>) move to) promo from to of
        Inl (e, s4) \<Rightarrow> Inl (e, s4)
      | Inr s4 \<Rightarrow>
          Inr (showVerdictIfNecessary
             ((setAndIlluminatePreviousMove (movePieceOnBoard s4 from to) (Some move))
                \<lparr>isPlayerTurn := True\<rparr>)))"
  by (simp add: onBotMessage_def specialMoves_def Let_def
      cong del: sum.case_cong_weak prod.case_cong_weak)

section \<open>The verdict\<close>

lemma showVerdict_checkmate:
  assumes "gameVerdict t \<noteq> None" "verdictModal t \<noteq> None"
    "isCheckmate (game t)" "\<not> isDraw (game t)"
  shows "gameVerdict (showVerdictIfNecessary t) =
           Some (''Checkmate! ('' @ (if isPlayerTurn t then ''Computer'' else ''Player'') @ '' wins)'')"
    and "verdictModal (showVerdictIfNecessary t) = Some True"
  using assms
  by (auto simp: showVerdictIfNecessary_def isGameOver_def showGameVerdict_def
      showCheckmateVerdict_def Let_def)

lemma showVerdict_draw:
  assumes "gameVerdict t \<noteq> None" "verdictModal t \<noteq> None" "isDraw (game t)"
  shows "gameVerdict (showVerdictIfNecessary t) = Some ''Draw!''"
    and "verdictModal (showVerdictIfNecessary t) = Some True"
  using assms
  by (auto simp: showVerdictIfNecessary_def isGameOver_def showGameVerdict_def
      showCheckmateVerdict_def showDrawVerdict_def Let_def)

lemma submit_returned_shape:
  assumes "moveSelectedPiece_submit s from to pp = (Returned, s')"
  shows "\<exists>t. s' = unsetSelectedPieceAndValidMoves (showVerdictIfNecessary t)
           \<and> \<not> isPlayerTurn t \<and> gameVerdict t = gameVerdict s
           \<and> verdictModal t = verdictModal s"
proof (cases "game_move (game s) from to (getPromotionPieceMoveCharacter pp)")
  case None
  with assms show ?thesis by (simp add: submit_rejected)
next
  case (Some r)
  obtain move g' where r: "r = (move, g')" by (cases r)
  show ?thesis
  proof (cases "isPromotionMove move")
    case False
    with assms Some r have "s' = unsetSelectedPieceAndValidMoves (showVerdictIfNecessary
        ((setAndIlluminatePreviousMove
           (movePieceOnBoard (specialMoves (s\<lparr>game := g'\<rparr>) move to) from to)
           (Some move))\<lparr>isPlayerTurn := False\<rparr>))"
      by (simp add: submit_not_promotion)
    then show ?thesis
      by (intro exI conjI) (assumption, simp_all)
  next
    case True
    with assms Some r obtain s4 where
      p: "removePawnAndAddPromotedPiece (specialMoves (s\<lparr>game := g'\<rparr>) move to) pp to = Inr s4"
      and s': "s' = unsetSelectedPieceAndValidMoves (showVerdictIfNecessary
             ((setAndIlluminatePreviousMove (movePieceOnBoard s4 from to) (Some move))
                \<lparr>isPlayerTurn := False\<rparr>))"
      by (auto simp: submit_promotion split: sum.splits)
    from control_removePawnAndAddPromotedPiece(1) [OF p]
    have "gameVerdict s4 = gameVerdict s" "verdictModal s4 = verdictModal s"
      by (auto dest: control_eqD)
    with s' show ?thesis
      by (intro exI conjI) (rule s', simp_all)
  qed
qed

lemma onBotMessage_returned_shape:
  assumes "onBotMessage s message = Inr s'" "str_includes ''bestmove'' message"
  shows "\<exists>t. s' = showVerdictIfNecessary t \<and> isPlayerTurn t
           \<and> gameVerdict t = gameVerdict s \<and> verdictModal t = verdictModal s"
proof (cases "getBestMoveDetails message")
  case None
  with assms show ?thesis by (simp add: onBotMessage_def)
next
  case (Some d)
  obtain f t promo where d: "d = (f, t, promo)" by (cases d)
  with Some have details: "getBestMoveDetails message = Some (f, t, promo)" by simp
  show ?thesis
  proof (cases "game_move (game s) f t promo")
    case None
    with assms details show ?thesis by (simp add: onBotMessage_rejected)
  next
    case (Some r)
    obtain move g' where r: "r = (move, g')" by (cases r)
    show ?thesis
    proof (cases "promo = []")
      case True
      with assms details Some r have "s' = showVerdictIfNecessary
        ((setAndIlluminatePreviousMove
           (movePieceOnBoard (specialMoves (s\<lparr>game := g'\<rparr>) move t) f t)
           (Some move))\<lparr>isPlayerTurn := True\<rparr>)"
        by (simp add: onBotMessage_plain)
      then show ?thesis
        by (intro exI conjI) (assumption, simp_all)
    next
      case False
      with assms details Some r obtain s4 where
        p: "promotePiece (specialMoves (s\<lparr>game := g'\<rparr>) move t) promo f t = Inr s4"
        and s': "s' = showVerdictIfNecessary
             ((setAndIlluminatePreviousMove (movePieceOnBoard s4 f t) (Some move))
                \<lparr>isPlayerTurn := True\<rparr>)"
        by (auto simp: onBotMessage_promotion split: sum.splits)
      from control_promotePiece(1) [OF p]
      have "gameVerdict s4 = gameVerdict s" "verdictModal s4 = verdictModal s"
        by (auto dest: control_eqD)
      with s' show ?thesis
        by (intro exI conjI) (rule s', simp_all)
    qed
  qed
qed

text \<open>
  When the engine reports checkmate and no draw, the verdict names the side that moved;
  when it reports a draw, the verdict is the draw text.
\<close>

lemma verdict_when_one_outcome:
  "(moveSelectedPiece_submit s from to pp = (Returned, s')
      \<and> gameVerdict s \<noteq> None \<and> verdictModal s \<noteq> None \<longrightarrow>
      (isCheckmate (game s') \<and> \<not> isDraw (game s') \<longrightarrow>
         gameVerdict s' = Some ''Checkmate! (Player wins)'' \<and> verdictModal s' = Some True)
      \<and> (isDraw (game s') \<longrightarrow>
         gameVerdict s' = Some ''Draw!'' \<and> verdictModal s' = Some True))
   \<and>
   (onBotMessage s message = Inr s'' \<and> str_includes ''bestmove'' message
      \<and> gameVerdict s \<noteq> None \<and> verdictModal s \<noteq> None \<longrightarrow>
      (isCheckmate (game s'') \<and> \<not> isDraw (game s'') \<longrightarrow>
         gameVerdict s'' = Some ''Checkmate! (Computer wins)'' \<and> verdictModal s'' = Some True)
      \<and> (isDraw (game s'') \<longrightarrow>
         gameVerdict s'' = Some ''Draw!'' \<and> verdictModal s'' = Some True))"
proof (intro conjI impI)
  assume a: "moveSelectedPiece_submit s from to pp = (Returned, s')
      \<and> gameVerdict s \<noteq> None \<and> verdictModal s \<noteq> None"
  then obtain t where t: "s' = unsetSelectedPieceAndValidMoves (showVerdictIfNecessary t)"
    "\<not> isPlayerTurn t" "gameVerdict t \<noteq> None" "verdictModal t \<noteq> None"
    using submit_returned_shape [of s "from" to pp s'] by auto
  {
    assume "isCheckmate (game s') \<and> \<not> isDraw (game s')"
    with t show "gameVerdict s' = Some ''Checkmate! (Player wins)''"
      and "verdictModal s' = Some True"
      by (simp_all add: showVerdict_checkmate)
  }
  {
    assume "isDraw (game s')"
    with t show "gameVerdict s' = Some ''Draw!''" and "verdictModal s' = Some True"
      by (simp_all add: showVerdict_draw)
  }
next
  assume a: "onBotMessage s message = Inr s'' \<and> str_includes ''bestmove'' message
      \<and> gameVerdict s \<noteq> None \<and> verdictModal s \<noteq> None"
  then obtain t where t: "s'' = showVerdictIfNecessary t"
    "isPlayerTurn t" "gameVerdict t \<noteq> None" "verdictModal t \<noteq> None"
    using onBotMessage_returned_shape [of s message s''] by auto
  {
    assume "isCheckmate (game s'') \<and> \<not> isDraw (game s'')"
    with t show "gameVerdict s'' = Some ''Checkmate! (Computer wins)''"
      and "verdictModal s'' = Some True"
      by (simp_all add: showVerdict_checkmate)
  }
  {
    assume "isDraw (game s'')"
    with t show "gameVerdict s'' = Some ''Draw!''" and "verdictModal s'' = Some True"
      by (simp_all add: showVerdict_draw)
  }
qed
section \<open>Names in the scene, entries in the registry\<close>

lemma getSceneObject_iff: "getSceneObject sc (Some n) \<noteq> None \<longleftrightarrow> n \<in> set (map name sc)"
  by (induction sc) (auto simp: getSceneObject_def)

lemma names_modifyObject:
  "(\<And>ob. name (f ob) = name ob) \<Longrightarrow> map name (modifyObject n f sc) = map name sc"
  by (induction sc) simp_all

lemma names_removePieceFromBoard [simp]: "map name (removePieceFromBoard sc n) = map name sc"
  by (simp add: removePieceFromBoard_def names_modifyObject)

lemma names_illuminateObject [simp]: "map name (illuminateObject sc n c) = map name sc"
  by (simp add: illuminateObject_def names_modifyObject)

lemma names_illuminateSquares [simp]: "map name (illuminateSquares sc ps c) = map name sc"
  unfolding illuminateSquares_def
  by (induction ps arbitrary: sc) simp_all

lemma names_movePieceOnBoard [simp]:
  "map name (scene (movePieceOnBoard s from to)) = map name (scene s)"
  by (simp add: movePieceOnBoard_def Let_def names_modifyObject split: option.split prod.split)

lemma names_castleRook_queenSide [simp]:
  "map name (scene (castleRook_queenSide s move to c)) = map name (scene s)"
  by (simp add: castleRook_queenSide_def split: option.split)

lemma names_castleRook [simp]: "map name (scene (castleRook s move to)) = map name (scene s)"
  by (simp add: castleRook_def split: option.split)

lemma names_captureEnPassantPawn [simp]:
  "map name (scene (captureEnPassantPawn s)) = map name (scene s)"
  by (simp add: captureEnPassantPawn_def split: option.split)

lemma names_specialMoves [simp]: "map name (scene (specialMoves s move to)) = map name (scene s)"
  by (simp add: specialMoves_def Let_def)

lemma names_removePawn [simp]: "map name (scene (removePawn s)) = map name (scene s)"
  by (simp add: removePawn_def split: option.split)

lemma names_setAndIlluminatePreviousMove [simp]:
  "map name (scene (setAndIlluminatePreviousMove s m)) = map name (scene s)"
  by (simp add: setAndIlluminatePreviousMove_def illuminatePreviousMove_def
        deilluminateOlderPreviousMove_def split: option.split)

lemma names_unsetSelectedPieceAndValidMoves [simp]:
  "map name (scene (unsetSelectedPieceAndValidMoves s)) = map name (scene s)"
  by (simp add: unsetSelectedPieceAndValidMoves_def unsetValidMoves_def unsetSelectedPiece_def
        deilluminatePiece_def split: option.split)

lemma hasName_steps [simp]:
  "hasName (movePieceOnBoard s from to) = hasName s"
  "hasName (castleRook_queenSide s move to c) = hasName s"
  "hasName (castleRook s move to) = hasName s"
  "hasName (captureEnPassantPawn s) = hasName s"
  "hasName (specialMoves s move to) = hasName s"
  "hasName (removePawn s) = hasName s"
  "hasName (setAndIlluminatePreviousMove s m) = hasName s"
  "hasName (unsetSelectedPieceAndValidMoves s) = hasName s"
  by (simp_all add: hasName_def fun_eq_iff)

lemma hasName_update [simp]:
  "hasName (s\<lparr>game := g\<rparr>) = hasName s"
  "hasName (s\<lparr>selectedPiece := sp\<rparr>) = hasName s"
  "hasName (s\<lparr>deferredResolve := d\<rparr>) = hasName s"
  "hasName (s\<lparr>promotionModal := m\<rparr>) = hasName s"
  "hasName (s\<lparr>isPlayerTurn := b\<rparr>) = hasName s"
  "hasName (s\<lparr>boardState := bs\<rparr>) = hasName s"
  by (simp_all add: hasName_def fun_eq_iff)

lemma movePieceOnBoard_absent:
  "getPieceAt (boardState s) from = None \<Longrightarrow> movePieceOnBoard s from to = s"
  by (simp add: movePieceOnBoard_def)

lemma getPositionObject_None_iff:
  "getPositionObject sc to = None \<longleftrightarrow> to \<notin> set (map name sc)"
  using getSceneObject_iff [of sc to] by (auto simp: getPositionObject_def)

lemma getPositionObject_SomeD:
  "getPositionObject sc to = Some ob \<Longrightarrow> to \<in> set (map name sc)"
  using getPositionObject_None_iff [of sc to] by auto

lemma boardState_movePieceOnBoard:
  "boardState (movePieceOnBoard s from to) = moveEntry (boardState s) (hasName s to) from to"
proof -
  have a: "getPositionObject (removePieceFromBoard (scene s) n) to = None \<longleftrightarrow> \<not> hasName s to"
    for n
    by (simp add: getPositionObject_None_iff hasName_def)
  have b: "getPositionObject (scene s) to = None \<longleftrightarrow> \<not> hasName s to"
    by (simp add: getPositionObject_None_iff hasName_def)
  show ?thesis
  proof (cases "hasName s to")
    case True
    then show ?thesis
      by (auto simp: a b movePieceOnBoard_def moveEntry_def Let_def
          split: option.split prod.split)
  next
    case False
    then have none: "getPositionObject (scene s) to = None"
      "\<And>n. getPositionObject (removePieceFromBoard (scene s) n) to = None"
      using a b by simp_all
    from False show ?thesis
      by (simp add: none movePieceOnBoard_def moveEntry_def Let_def split: option.split)
  qed
qed

lemma boardState_castleRook_queenSide:
  "boardState (castleRook_queenSide s move to c) =
     castleEntries_queenSide (boardState s) (hasName s) move to c"
  by (simp add: castleRook_queenSide_def castleEntries_queenSide_def boardState_movePieceOnBoard
      split: option.split)

lemma boardState_castleRook:
  "boardState (castleRook s move to) =
     castleEntries (boardState s) (hasName s) (isPlayerTurn s) move to"
  by (simp add: castleRook_def castleEntries_def pieceColourOf_def
      boardState_castleRook_queenSide boardState_movePieceOnBoard split: option.split)

lemma boardState_captureEnPassantPawn:
  "boardState (captureEnPassantPawn s) = captureEntry (boardState s) (previousMove s)"
  by (simp add: captureEnPassantPawn_def captureEntry_def split: option.split)

lemma boardState_specialMoves:
  "boardState (specialMoves s move to) =
     specialEntries (boardState s) (hasName s) (isPlayerTurn s) (previousMove s) move to"
  by (simp add: specialMoves_def specialEntries_def Let_def boardState_castleRook
      boardState_captureEnPassantPawn)

lemma boardState_submit_not_promotion:
  "game_move (game s) from to (getPromotionPieceMoveCharacter pp) = Some (move, g') \<Longrightarrow>
   \<not> isPromotionMove move \<Longrightarrow>
   boardState (snd (moveSelectedPiece_submit s from to pp)) =
     moveEntry (specialEntries (boardState s) (hasName s) (isPlayerTurn s) (previousMove s) move to)
       (hasName s to) from to"
  by (simp add: submit_not_promotion boardState_movePieceOnBoard boardState_specialMoves)

lemma boardState_onBotMessage_plain:
  "str_includes ''bestmove'' message \<Longrightarrow> getBestMoveDetails message = Some (from, to, []) \<Longrightarrow>
   game_move (game s) from to [] = Some (move, g') \<Longrightarrow>
   \<exists>s'. onBotMessage s message = Inr s' \<and> game s' = g' \<and>
     boardState s' =
       moveEntry (specialEntries (boardState s) (hasName s) (isPlayerTurn s) (previousMove s) move to)
         (hasName s to) from to"
  by (simp add: onBotMessage_plain boardState_movePieceOnBoard boardState_specialMoves)

text \<open>The names in the scene of the examples.\<close>

lemma name_pieceObject [simp]: "name (pieceObject bs p) = fst p"
  by (simp add: pieceObject_def split: prod.split option.split)

lemma names_sceneSquares: "map name sceneSquares = allSquares"
  by (simp add: sceneSquares_def allSquares_def squareObject_def files_def)

lemma names_sceneFor:
  "map name (sceneFor bs) = map fst initBoardState @ allSquares"
  by (simp add: sceneFor_def names_sceneSquares comp_def)

lemma hasName_stateFor:
  "hasName (stateFor bs g turn prev) n \<longleftrightarrow> n \<in> set (map fst initBoardState @ allSquares)"
  by (simp add: hasName_def stateFor_def names_sceneFor)

lemma stateFor_fields [simp]:
  "boardState (stateFor bs g turn prev) = bs"
  "scene (stateFor bs g turn prev) = sceneFor bs"
  "game (stateFor bs g turn prev) = g"
  "isPlayerTurn (stateFor bs g turn prev) = turn"
  "selectedPiece (stateFor bs g turn prev) = None"
  "previousMove (stateFor bs g turn prev) = prev"
  "deferredResolve (stateFor bs g turn prev) = None"
  "promotionModal (stateFor bs g turn prev) = Some False"
  "gameVerdict (stateFor bs g turn prev) = Some []"
  "verdictModal (stateFor bs g turn prev) = Some False"
  "botMessages (stateFor bs g turn prev) = []"
  by (simp_all add: stateFor_def)

lemma triggerBotMove_fields [simp]:
  "boardState (triggerBotMove r) = boardState (snd r)"
  "game (triggerBotMove r) = game (snd r)"
  "scene (triggerBotMove r) = scene (snd r)"
  by (cases r; simp add: triggerBotMove_def)+

lemmas registry_eval =
  moveEntry_def specialEntries_def castleEntries_def castleEntries_queenSide_def captureEntry_def
  getPieceAt_def getPiecePosition_def hasName_stateFor allSquares_def files_def
  initBoardState_def mkMove_def isPromotionMove_def truthy_def isCastlingMove_def
  isKingSideCastling_def isQueenSideCastling_def isEnPassantMove_def
  getPreviousFileSameRankPosition_def getNextFileSameRankPosition_def at_index_def
  interpolate_def

section \<open>Promotion and the registry\<close>

lemma specialMoves_plain:
  "\<not> isCastlingMove move \<Longrightarrow> \<not> isEnPassantMove move \<Longrightarrow> specialMoves s move to = s"
  by (simp add: specialMoves_def)

lemma countNamed_scene:
  "length (filter (\<lambda>ob. str_includes pat (name ob)) sc) = countNamed pat (map name sc)"
  by (induction sc) (simp_all add: countNamed_def)

lemma getPromotionPieceObject_None_iff:
  "getPromotionPieceObject sc p = None \<longleftrightarrow> countNamed (p @ ''_white'') (map name sc) = 0"
  by (simp add: getPromotionPieceObject_def Let_def countNamed_scene [symmetric])

lemma getPromotionPieceObject_name:
  "getPromotionPieceObject sc p = Some ob \<Longrightarrow>
   name ob = p @ ''_white_'' @ decimal (countNamed (p @ ''_white'') (map name sc) + 1)"
  by (auto simp: getPromotionPieceObject_def Let_def countNamed_scene split: if_splits)

lemma getPieceCharacterToPiece_None_iff:
  "getPieceCharacterToPiece s c = None \<longleftrightarrow>
   countNamed (pieceCharacterToPiece (isPlayerTurn s) c) (map name (scene s)) = 0"
  by (simp add: getPieceCharacterToPiece_def Let_def countNamed_scene [symmetric])

lemma getPieceCharacterToPiece_name:
  "getPieceCharacterToPiece s c = Some ob \<Longrightarrow>
   name ob = pieceCharacterToPiece (isPlayerTurn s) c @ ''_''
     @ decimal (countNamed (pieceCharacterToPiece (isPlayerTurn s) c) (map name (scene s)) + 1)"
  by (auto simp: getPieceCharacterToPiece_def Let_def countNamed_scene split: if_splits)

lemma addPieceAt_registry:
  "boardState (addPieceAt s (Some ob) to) = AList.update (name ob) to (boardState s)"
  "map name (scene (addPieceAt s (Some ob) to)) =
     map name (scene s) @ (if hasName s to then [name ob] else [])"
proof -
  show "boardState (addPieceAt s (Some ob) to) = AList.update (name ob) to (boardState s)"
    by (simp add: addPieceAt_def Let_def split: option.split prod.split)
  show "map name (scene (addPieceAt s (Some ob) to)) =
     map name (scene s) @ (if hasName s to then [name ob] else [])"
    using getSceneObject_iff [of "scene s" to]
    by (auto simp: addPieceAt_def Let_def hasName_def split: option.split prod.split)
qed

lemma removePawn_registry:
  "selectedPiece s = Some sp \<Longrightarrow> sp \<noteq> [] \<Longrightarrow>
   boardState (removePawn s) = AList.delete sp (boardState s)"
  by (simp add: removePawn_def)

lemma promoted_registry:
  assumes "selectedPiece s = Some sp" "sp \<noteq> []" "p \<noteq> []"
    and "countNamed (p @ ''_white'') (map name (scene s)) = n" "n \<noteq> 0"
  shows "\<exists>s'. removePawnAndAddPromotedPiece s (Some p) to = Inr s'
           \<and> boardState s' =
               AList.update (p @ ''_white_'' @ decimal (n + 1)) to (AList.delete sp (boardState s))
           \<and> map name (scene s') =
               map name (scene s) @ (if hasName s to then [p @ ''_white_'' @ decimal (n + 1)] else [])
           \<and> control s' = control s"
proof -
  from assms have "getPromotionPieceObject (scene (removePawn s)) p \<noteq> None"
    by (simp add: getPromotionPieceObject_None_iff)
  then obtain ob where ob: "getPromotionPieceObject (scene (removePawn s)) p = Some ob"
    by blast
  from getPromotionPieceObject_name [OF ob] assms
  have nm: "name ob = p @ ''_white_'' @ decimal (n + 1)"
    by simp
  from assms ob have "removePawnAndAddPromotedPiece s (Some p) to
      = Inr (addPieceAt (removePawn s) (Some ob) to)"
    by (simp add: removePawnAndAddPromotedPiece_def addPromotedPiece_def truthy_def)
  with assms nm show ?thesis
    by (simp add: addPieceAt_registry removePawn_registry)
qed

lemma removePawnPiece_registry [simp]:
  "boardState (removePawnPiece s po) = AList.delete (name po) (boardState s)"
  "map name (scene (removePawnPiece s po)) = map name (scene s)"
  "hasName (removePawnPiece s po) = hasName s"
  by (simp_all add: removePawnPiece_def hasName_def fun_eq_iff)

lemma promotePiece_registry:
  assumes "countNamed (pieceCharacterToPiece (isPlayerTurn s) c) (map name (scene s)) = n"
    "n \<noteq> 0"
    and "getPieceAt (boardState s) from = Some pawn" "hasName s pawn"
  shows "\<exists>s'. promotePiece s c from to = Inr s'
           \<and> boardState s' =
               AList.update (pieceCharacterToPiece (isPlayerTurn s) c @ ''_'' @ decimal (n + 1)) to
                 (AList.delete pawn (boardState s))
           \<and> map name (scene s') =
               map name (scene s) @
                 (if hasName s to
                  then [pieceCharacterToPiece (isPlayerTurn s) c @ ''_'' @ decimal (n + 1)] else [])
           \<and> control s' = control s"
proof -
  from assms have "getPieceCharacterToPiece s c \<noteq> None"
    by (simp add: getPieceCharacterToPiece_None_iff)
  then obtain ob where ob: "getPieceCharacterToPiece s c = Some ob"
    by blast
  from getPieceCharacterToPiece_name [OF ob] assms
  have nm: "name ob = pieceCharacterToPiece (isPlayerTurn s) c @ ''_'' @ decimal (n + 1)"
    by simp
  from assms(4) obtain po where po: "getSceneObject (scene s) (Some pawn) = Some po"
    using getSceneObject_iff [of "scene s" pawn] by (auto simp: hasName_def)
  then have pn: "name po = pawn"
    by (auto simp: getSceneObject_def find_Some_iff)
  from ob po assms(3) have "promotePiece s c from to
      = Inr (addPieceAt (removePawnPiece s po) (Some ob) to)"
    by (simp add: promotePiece_def removePawnPieceAndAddPromotedPiece_def)
  with nm pn show ?thesis
    by (simp add: addPieceAt_registry)
qed

lemma submit_promotion_registry:
  assumes gm: "game_move (game s) from to (getPromotionPieceMoveCharacter (Some p)) = Some (move, g')"
    and kind: "isPromotionMove move" "\<not> isCastlingMove move" "\<not> isEnPassantMove move"
    and sel: "selectedPiece s = Some sp" "sp \<noteq> []" and p: "p \<noteq> []"
    and count: "countNamed (p @ ''_white'') (map name (scene s)) = n" "n \<noteq> 0"
  shows "fst (moveSelectedPiece_submit s from to (Some p)) = Returned"
    and "boardState (snd (moveSelectedPiece_submit s from to (Some p))) =
           moveEntry (AList.update (p @ ''_white_'' @ decimal (n + 1)) to
                        (AList.delete sp (boardState s)))
             (hasName s to) from to"
    and "map name (scene (snd (moveSelectedPiece_submit s from to (Some p)))) =
           map name (scene s) @ (if hasName s to then [p @ ''_white_'' @ decimal (n + 1)] else [])"
    and "game (snd (moveSelectedPiece_submit s from to (Some p))) = g'"
proof -
  let ?s3 = "specialMoves (s\<lparr>game := g'\<rparr>) move to"
  have s3: "?s3 = s\<lparr>game := g'\<rparr>"
    by (simp add: specialMoves_plain kind)
  obtain s4 where s4: "removePawnAndAddPromotedPiece ?s3 (Some p) to = Inr s4"
    and b4: "boardState s4 =
       AList.update (p @ ''_white_'' @ decimal (n + 1)) to (AList.delete sp (boardState s))"
    and n4: "map name (scene s4) =
       map name (scene s) @ (if hasName s to then [p @ ''_white_'' @ decimal (n + 1)] else [])"
    and c4: "control s4 = control (s\<lparr>game := g'\<rparr>)"
    using promoted_registry [of "s\<lparr>game := g'\<rparr>" sp p n to] sel p count
    by (auto simp: s3)
  have h4: "hasName s4 to = hasName s to"
    by (auto simp: hasName_def n4)
  have eq: "moveSelectedPiece_submit s from to (Some p) =
      (Returned, unsetSelectedPieceAndValidMoves (showVerdictIfNecessary
         ((setAndIlluminatePreviousMove (movePieceOnBoard s4 from to) (Some move))
            \<lparr>isPlayerTurn := False\<rparr>)))"
    by (simp add: submit_promotion [OF gm kind(1)] s4)
  show "fst (moveSelectedPiece_submit s from to (Some p)) = Returned"
    by (simp add: eq)
  show "boardState (snd (moveSelectedPiece_submit s from to (Some p))) =
           moveEntry (AList.update (p @ ''_white_'' @ decimal (n + 1)) to
                        (AList.delete sp (boardState s)))
             (hasName s to) from to"
    by (simp add: eq boardState_movePieceOnBoard b4 h4)
  show "map name (scene (snd (moveSelectedPiece_submit s from to (Some p)))) =
           map name (scene s) @ (if hasName s to then [p @ ''_white_'' @ decimal (n + 1)] else [])"
    by (simp add: eq n4)
  show "game (snd (moveSelectedPiece_submit s from to (Some p))) = g'"
    using control_eqD(1) [OF c4] by (simp add: eq)
qed

lemma onBotMessage_promotion_registry:
  assumes inc: "str_includes ''bestmove'' message"
    and det: "getBestMoveDetails message = Some (from, to, c)" and c: "c \<noteq> []"
    and gm: "game_move (game s) from to c = Some (move, g')"
    and kind: "\<not> isCastlingMove move" "\<not> isEnPassantMove move"
    and count: "countNamed (pieceCharacterToPiece (isPlayerTurn s) c) (map name (scene s)) = n"
      "n \<noteq> 0"
    and pawn: "getPieceAt (boardState s) from = Some pawn" "hasName s pawn"
  shows "\<exists>s'. onBotMessage s message = Inr s' \<and> game s' = g'
           \<and> boardState s' =
               moveEntry
                 (AList.update (pieceCharacterToPiece (isPlayerTurn s) c @ ''_'' @ decimal (n + 1)) to
                    (AList.delete pawn (boardState s)))
                 (hasName s to) from to"
proof -
  let ?s3 = "specialMoves (s\<lparr>game := g'\<rparr>) move to"
  let ?new = "pieceCharacterToPiece (isPlayerTurn s) c @ ''_'' @ decimal (n + 1)"
  have s3: "?s3 = s\<lparr>game := g'\<rparr>"
    by (simp add: specialMoves_plain kind)
  obtain s4 where s4: "promotePiece ?s3 c from to = Inr s4"
    and b4: "boardState s4 = AList.update ?new to (AList.delete pawn (boardState s))"
    and n4: "map name (scene s4) = map name (scene s) @ (if hasName s to then [?new] else [])"
    and c4: "control s4 = control (s\<lparr>game := g'\<rparr>)"
    using promotePiece_registry [of "s\<lparr>game := g'\<rparr>" c n "from" pawn to] count pawn
    by (auto simp: s3)
  have h4: "hasName s4 to = hasName s to"
    by (auto simp: hasName_def n4)
  have "onBotMessage s message =
      Inr (showVerdictIfNecessary
             ((setAndIlluminatePreviousMove (movePieceOnBoard s4 from to) (Some move))
                \<lparr>isPlayerTurn := True\<rparr>))"
    by (simp add: onBotMessage_promotion [OF inc det c gm] s4)
  then show ?thesis
    using control_eqD(1) [OF c4] by (simp add: boardState_movePieceOnBoard b4 h4)
qed

section \<open>Entries of the registry\<close>

lemma getPiecePosition_map_of: "getPiecePosition bs k = map_of bs k"
  by (induction bs) (auto simp: getPiecePosition_def)

lemma getPieceAt_None_iff: "getPieceAt bs v = None \<longleftrightarrow> v \<notin> snd ` set bs"
  by (induction bs) (auto simp: getPieceAt_def)

lemma getPieceAt_SomeD: "getPieceAt bs v = Some k \<Longrightarrow> (k, v) \<in> set bs"
  by (induction bs) (auto simp: getPieceAt_def split: if_splits)

lemma getPieceAt_unique:
  "distinct (map snd bs) \<Longrightarrow> (k, v) \<in> set bs \<Longrightarrow> getPieceAt bs v = Some k"
  by (induction bs) (auto simp: getPieceAt_def rev_image_eqI)

lemma set_delete: "set (AList.delete k bs) = {p \<in> set bs. fst p \<noteq> k}"
  by (auto simp: AList.delete_eq)

lemma distinct_values_delete:
  "distinct (map snd bs) \<Longrightarrow> distinct (map snd (AList.delete k bs))"
  by (simp add: AList.delete_eq distinct_map_filter)

lemma values_update: "snd ` set (AList.update k v bs) \<subseteq> insert v (snd ` set bs)"
  by (induction bs) auto

lemma values_delete: "snd ` set (AList.delete k bs) \<subseteq> snd ` set bs"
  by (auto simp: set_delete)

lemma captured_square_cleared:
  assumes "distinct (map snd bs)" "getPieceAt bs v = Some k"
  shows "v \<notin> snd ` set (AList.delete k bs)"
proof
  assume "v \<in> snd ` set (AList.delete k bs)"
  then obtain k' where k': "(k', v) \<in> set bs" "k' \<noteq> k"
    by (auto simp: set_delete)
  from getPieceAt_unique [OF assms(1) k'(1)] assms(2) k'(2) show False
    by simp
qed

lemma enPassant_entries:
  assumes keys: "distinct (map fst bs)" and vals: "distinct (map snd bs)"
    and cap: "getPieceAt bs (mv_to pm) = Some captured" "captured \<noteq> []"
    and mover: "getPieceAt bs from = Some pawn" "pawn \<noteq> []"
    and sq: "mv_to pm \<noteq> from" "mv_to pm \<noteq> to"
  shows "getPiecePosition (moveEntry (captureEntry bs (Some pm)) True from to) pawn = Some to"
    and "getPieceAt (moveEntry (captureEntry bs (Some pm)) True from to) (mv_to pm) = None"
proof -
  let ?bs1 = "AList.delete captured bs"
  have c: "captureEntry bs (Some pm) = ?bs1"
    using cap by (simp add: captureEntry_def)
  have inb: "(pawn, from) \<in> set bs" "(captured, mv_to pm) \<in> set bs"
    using mover cap by (auto dest: getPieceAt_SomeD)
  with keys sq(1) have ne: "pawn \<noteq> captured"
    by (auto dest: eq_key_imp_eq_value)
  with inb have "(pawn, from) \<in> set ?bs1"
    by (simp add: set_delete)
  with vals have m1: "getPieceAt ?bs1 from = Some pawn"
    by (intro getPieceAt_unique distinct_values_delete)
  have gone: "mv_to pm \<notin> snd ` set ?bs1"
    using vals cap(1) by (rule captured_square_cleared)
  obtain bs2 where bs2: "moveEntry ?bs1 True from to = AList.update pawn to bs2"
    and sub: "snd ` set bs2 \<subseteq> snd ` set ?bs1"
    using m1 mover(2) values_delete [of _ ?bs1]
    by (auto simp: moveEntry_def Let_def split: option.split)
  show "getPiecePosition (moveEntry (captureEntry bs (Some pm)) True from to) pawn = Some to"
    by (simp add: c bs2 getPiecePosition_map_of update_conv')
  from sub values_update [of pawn to bs2]
  have "snd ` set (AList.update pawn to bs2) \<subseteq> insert to (snd ` set ?bs1)"
    by blast
  with gone sq(2) have "mv_to pm \<notin> snd ` set (AList.update pawn to bs2)"
    by blast
  then show "getPieceAt (moveEntry (captureEntry bs (Some pm)) True from to) (mv_to pm) = None"
    by (simp add: c bs2 getPieceAt_None_iff)
qed

section \<open>Hidden renderables\<close>

lemma hidden_modifyObject:
  assumes "\<And>ob. name (f ob) = name ob" "\<And>ob. \<not> visible ob \<Longrightarrow> \<not> visible (f ob)"
    and "hidden sc n"
  shows "hidden (modifyObject m f sc) n"
  using assms(3)
  by (induction sc) (auto simp: hidden_def getSceneObject_def assms(1,2))

lemma hidden_removePieceFromBoard_same:
  "n \<in> set (map name sc) \<Longrightarrow> hidden (removePieceFromBoard sc (Some n)) n"
  by (induction sc) (auto simp: hidden_def getSceneObject_def removePieceFromBoard_def)

lemma hidden_removePieceFromBoard [simp]:
  "hidden sc n \<Longrightarrow> hidden (removePieceFromBoard sc m) n"
  by (simp add: removePieceFromBoard_def hidden_modifyObject)

lemma hidden_illuminateObject [simp]:
  "hidden sc n \<Longrightarrow> hidden (illuminateObject sc m c) n"
  by (simp add: illuminateObject_def hidden_modifyObject)

lemma hidden_illuminateSquares [simp]:
  "hidden sc n \<Longrightarrow> hidden (illuminateSquares sc ps c) n"
  unfolding illuminateSquares_def
  by (induction ps arbitrary: sc) simp_all

lemma hidden_movePieceOnBoard [simp]:
  "hidden (scene s) n \<Longrightarrow> hidden (scene (movePieceOnBoard s from to)) n"
  by (simp add: movePieceOnBoard_def Let_def hidden_modifyObject split: option.split prod.split)

lemma hidden_setAndIlluminatePreviousMove [simp]:
  "hidden (scene s) n \<Longrightarrow> hidden (scene (setAndIlluminatePreviousMove s m)) n"
  by (simp add: setAndIlluminatePreviousMove_def illuminatePreviousMove_def
        deilluminateOlderPreviousMove_def split: option.split)

lemma hidden_unsetSelectedPieceAndValidMoves [simp]:
  "hidden (scene s) n \<Longrightarrow> hidden (scene (unsetSelectedPieceAndValidMoves s)) n"
  by (simp add: unsetSelectedPieceAndValidMoves_def unsetValidMoves_def unsetSelectedPiece_def
        deilluminatePiece_def split: option.split)

lemma hidden_captureEnPassantPawn:
  "previousMove s = Some pm \<Longrightarrow> getPieceAt (boardState s) (mv_to pm) = Some captured \<Longrightarrow>
   hasName s captured \<Longrightarrow> hidden (scene (captureEnPassantPawn s)) captured"
  by (simp add: captureEnPassantPawn_def hasName_def hidden_removePieceFromBoard_same)

lemma specialMoves_enPassant:
  "isEnPassantMove move \<Longrightarrow> \<not> isCastlingMove move \<Longrightarrow>
   specialMoves s move to = captureEnPassantPawn s"
  by (simp add: specialMoves_def)

lemma specialEntries_enPassant:
  "isEnPassantMove move \<Longrightarrow> \<not> isCastlingMove move \<Longrightarrow>
   specialEntries bs has turn prev move to = captureEntry bs prev"
  by (simp add: specialEntries_def)

section \<open>Facts about the example positions\<close>

lemma knightsOut_fields [simp]:
  "boardState knightsOutState = knightsOutBoard"
  "game knightsOutState = knightsOutGame"
  "promotionModal knightsOutState = Some False"
  "isPlayerTurn knightsOutState = True"
  "deferredResolve knightsOutState = None"
  by (simp_all add: knightsOutState_def stateFor_def)

lemma knightsOut_positions [simp]:
  "getPiecePosition knightsOutBoard ''pawn_white_5'' = Some ''e2''"
  "getPiecePosition knightsOutBoard ''pawn_white_7'' = Some ''g2''"
  by (simp_all add: getPiecePosition_def knightsOutBoard_def)

lemma knightsOut_rejects [simp]: "game_move knightsOutGame from to p = None"
  by (simp add: game_move_def knightsOutGame_def)

lemma promotionState_fields [simp]:
  "selectedPiece promotionState = Some ''pawn_white_1''"
  "boardState promotionState = promotionBoard"
  "scene promotionState = sceneFor promotionBoard"
  "game promotionState = promotionGame"
  "promotionModal promotionState = Some False"
  "isPlayerTurn promotionState = True"
  "deferredResolve promotionState = None"
  by (simp_all add: promotionState_def stateFor_def)

lemma promotionBoard_pawn [simp]:
  "getPiecePosition promotionBoard ''pawn_white_1'' = Some ''a7''"
  by (simp add: promotionBoard_def getPiecePosition_def)

lemma sceneFor_counts:
  "countNamed ''queen_white'' (map name (sceneFor bs)) = 1"
  "countNamed ''knight_white'' (map name (sceneFor bs)) = 2"
  "countNamed ''bishop_white'' (map name (sceneFor bs)) = 2"
  "countNamed ''rook_white'' (map name (sceneFor bs)) = 2"
  "countNamed ''queen_black'' (map name (sceneFor bs)) = 1"
  by (simp_all add: names_sceneFor countNamed_def initBoardState_def allSquares_def files_def)

lemma hasName_sceneFor:
  "scene s = sceneFor bs \<Longrightarrow> hasName s n \<longleftrightarrow> n \<in> set (map fst initBoardState @ allSquares)"
  by (simp add: hasName_def names_sceneFor)

section \<open>Names of promoted pieces\<close>







section \<open>The claims\<close>

text \<open>
  C1 at a castling move that gives check, on the opponent's path. Before the move the
  registry and the engine's board have the same occupied squares. The engine castles
  long (king to c8, rook to d8) and writes the move \<open>O-O-O+\<close>; the executor moves the
  king only. Afterwards the registry holds a8 and not d8, the engine's board d8 and not
  a8.
\<close>

theorem castling_with_check_breaks_occupancy:
  "sameOccupancy longCastleWithCheckState
   \<and> (\<exists>s'. onBotMessage longCastleWithCheckState ''bestmove e8c8 ponder d1c2'' = Inr s'
          \<and> boardState s' =
              [(''king_white'', ''d1''), (''rook_black_2'', ''a8''), (''king_black'', ''c8'')]
          \<and> fen (game s') = ''2kr4/8/8/8/8/8/8/3K4 w - - 2 2''
          \<and> registryOccupied (boardState s') ''a8'' \<and> \<not> fenOccupied (fen (game s')) ''a8''
          \<and> \<not> registryOccupied (boardState s') ''d8'' \<and> fenOccupied (fen (game s')) ''d8''
          \<and> \<not> sameOccupancy s')"
proof
  let ?s = longCastleWithCheckState
  let ?m = "''bestmove e8c8 ponder d1c2''"
  let ?mv = "mkMove ''e8'' ''c8'' ''O-O-O+'' ''q'' None"
  let ?g = "Game [] False False ''2kr4/8/8/8/8/8/8/3K4 w - - 2 2''"
  show "sameOccupancy ?s"
    by (simp add: sameOccupancy_def longCastleWithCheckState_def allSquares_def files_def
        registryOccupied_def getPieceAt_def fenOccupied_def at_index_def)
  have inc: "str_includes ''bestmove'' ?m"
    by simp
  have det: "getBestMoveDetails ?m = Some (''e8'', ''c8'', [])"
    by (simp add: getBestMoveDetails_def at_index_def slice_def)
  have gm: "game_move (game ?s) ''e8'' ''c8'' [] = Some (?mv, ?g)"
    by (simp add: longCastleWithCheckState_def game_move_def)
  from boardState_onBotMessage_plain [OF inc det gm]
  obtain s' where s': "onBotMessage ?s ?m = Inr s'" and g: "game s' = ?g"
    and b: "boardState s' =
       moveEntry (specialEntries (boardState ?s) (hasName ?s) (isPlayerTurn ?s) (previousMove ?s)
         ?mv ''c8'') (hasName ?s ''c8'') ''e8'' ''c8''"
    by auto
  have b': "boardState s' =
      [(''king_white'', ''d1''), (''rook_black_2'', ''a8''), (''king_black'', ''c8'')]"
    unfolding b by (simp add: longCastleWithCheckState_def registry_eval)
  have occ: "registryOccupied (boardState s') ''a8''" "\<not> fenOccupied (fen (game s')) ''a8''"
    "\<not> registryOccupied (boardState s') ''d8''" "fenOccupied (fen (game s')) ''d8''"
    unfolding b' g
    by (simp_all add: registryOccupied_def getPieceAt_def fenOccupied_def at_index_def files_def)
  have "''a8'' \<in> set allSquares"
    by (simp add: allSquares_def files_def)
  with occ(1,2) have "\<not> sameOccupancy s'"
    by (auto simp: sameOccupancy_def list_all_iff)
  with s' b' g occ show "\<exists>s'. onBotMessage ?s ?m = Inr s'
          \<and> boardState s' =
              [(''king_white'', ''d1''), (''rook_black_2'', ''a8''), (''king_black'', ''c8'')]
          \<and> fen (game s') = ''2kr4/8/8/8/8/8/8/3K4 w - - 2 2''
          \<and> registryOccupied (boardState s') ''a8'' \<and> \<not> fenOccupied (fen (game s')) ''a8''
          \<and> \<not> registryOccupied (boardState s') ''d8'' \<and> fenOccupied (fen (game s')) ''d8''
          \<and> \<not> sameOccupancy s'"
    by auto
qed

text \<open>
  C2 at a capture with promotion. A white pawn on a7 takes the knight on b8 and becomes
  a queen. The executor removes the pawn and adds the new queen on b8; the relocation
  step then finds no piece on a7 and returns before it removes the captured knight.
  The registry is left with two identities on b8.
\<close>

theorem capture_promotion_leaves_two_identities:
  "(let s1 = moveSelectedPieceAndTriggerBotMove promotionState ''b8'';
        s2 = onPromote s1 (SubmitEvent (Some (Some ''queen'')))
    in distinct (map snd (boardState promotionState))
       \<and> boardState s2 =
           [(''king_white'', ''e1''), (''knight_black_2'', ''b8''), (''king_black'', ''e8''),
            (''queen_white_2'', ''b8'')]
       \<and> \<not> distinct (map snd (boardState s2))
       \<and> fen (game s2) = ''1Q2k3/8/8/8/8/8/8/4K3 b - - 0 1'')"
proof -
  let ?s1 = "promotionState\<lparr>promotionModal := Some True, deferredResolve := Some (''a7'', ''b8'')\<rparr>"
  let ?s = "promotionState\<lparr>deferredResolve := None, promotionModal := Some False\<rparr>"
  let ?mv = "mkMove ''a7'' ''b8'' ''axb8=Q+'' ''cp'' (Some ''q'')"
  let ?g = "Game [] False False ''1Q2k3/8/8/8/8/8/8/4K3 b - - 0 1''"
  have s1: "moveSelectedPieceAndTriggerBotMove promotionState ''b8'' = ?s1"
    by (rule moveSelectedPieceAndTriggerBotMove_suspended [of _ "''pawn_white_1''"])
      (simp_all add: shouldPromote_def at_index_def)
  have s2: "onPromote ?s1 (SubmitEvent (Some (Some ''queen''))) =
      triggerBotMove (moveSelectedPiece_submit ?s ''a7'' ''b8'' (Some ''queen''))"
    by (simp add: onPromote_def)
  have gm: "game_move (game ?s) ''a7'' ''b8'' (getPromotionPieceMoveCharacter (Some ''queen''))
      = Some (?mv, ?g)"
    by (simp add: promotionGame_def game_move_def getPromotionPieceMoveCharacter_def)
  have kind: "isPromotionMove ?mv" "\<not> isCastlingMove ?mv" "\<not> isEnPassantMove ?mv"
    by (simp_all add: mkMove_def isPromotionMove_def truthy_def isCastlingMove_def
        isKingSideCastling_def isQueenSideCastling_def isEnPassantMove_def)
  have pre: "selectedPiece ?s = Some ''pawn_white_1''" "''pawn_white_1'' \<noteq> []" "''queen'' \<noteq> []"
    "countNamed (''queen'' @ ''_white'') (map name (scene ?s)) = 1" "(1::nat) \<noteq> 0"
    by (simp_all add: sceneFor_counts)
  note reg = submit_promotion_registry [OF gm kind pre]
  have h: "hasName ?s ''b8''"
    by (simp add: hasName_sceneFor [of _ promotionBoard] allSquares_def files_def)
  have b: "boardState (snd (moveSelectedPiece_submit ?s ''a7'' ''b8'' (Some ''queen''))) =
      [(''king_white'', ''e1''), (''knight_black_2'', ''b8''), (''king_black'', ''e8''),
       (''queen_white_2'', ''b8'')]"
    unfolding reg(2)
    by (simp add: h promotionBoard_def moveEntry_def getPieceAt_def decimal.simps digit_char_def)
  note g = reg(4)
  have d: "distinct (map snd (boardState promotionState))"
    by (simp add: promotionBoard_def)
  show ?thesis
    unfolding Let_def s1 s2 triggerBotMove_fields b g
    using d by simp
qed

text \<open>
  C3 at a castling move that gives check. The engine writes the move \<open>O-O+\<close>, the
  executor compares the notation with \<open>O-O\<close>, and the rook is left on h1 while the king
  goes to g1. The same castling without check (written \<open>O-O\<close>) does put the rook on f1.
\<close>

theorem castling_with_check_leaves_the_rook:
  "boardState (moveSelectedPieceAndTriggerBotMove castleWithCheckState ''g1'')
     = [(''king_white'', ''g1''), (''rook_white_1'', ''h1''), (''king_black'', ''f8'')]
   \<and> boardState (moveSelectedPieceAndTriggerBotMove castleWithoutCheckState ''g1'')
     = [(''king_white'', ''g1''), (''rook_white_1'', ''f1''), (''king_black'', ''a8'')]"
proof
  let ?s = castleWithCheckState
  have "\<not> shouldPromote ''king_white'' ''g1''"
    by (simp add: shouldPromote_def)
  then have m: "moveSelectedPiece ?s ''g1'' = moveSelectedPiece_submit ?s ''e1'' ''g1'' None"
    by (simp add: moveSelectedPiece_def castleWithCheckState_def getPiecePosition_def)
  have gm: "game_move (game ?s) ''e1'' ''g1'' (getPromotionPieceMoveCharacter None)
      = Some (mkMove ''e1'' ''g1'' ''O-O+'' ''k'' None,
          Game [] False False ''5k2/8/8/8/8/8/8/5RK1 b - - 1 1'')"
    by (simp add: castleWithCheckState_def game_move_def getPromotionPieceMoveCharacter_def)
  have np: "\<not> isPromotionMove (mkMove ''e1'' ''g1'' ''O-O+'' ''k'' None)"
    by (simp add: mkMove_def isPromotionMove_def truthy_def)
  show "boardState (moveSelectedPieceAndTriggerBotMove ?s ''g1'')
      = [(''king_white'', ''g1''), (''rook_white_1'', ''h1''), (''king_black'', ''f8'')]"
    unfolding moveSelectedPieceAndTriggerBotMove_def m triggerBotMove_fields
      boardState_submit_not_promotion [OF gm np]
    by (simp add: castleWithCheckState_def registry_eval)
next
  let ?s = castleWithoutCheckState
  have "\<not> shouldPromote ''king_white'' ''g1''"
    by (simp add: shouldPromote_def)
  then have m: "moveSelectedPiece ?s ''g1'' = moveSelectedPiece_submit ?s ''e1'' ''g1'' None"
    by (simp add: moveSelectedPiece_def castleWithoutCheckState_def getPiecePosition_def)
  have gm: "game_move (game ?s) ''e1'' ''g1'' (getPromotionPieceMoveCharacter None)
      = Some (mkMove ''e1'' ''g1'' ''O-O'' ''k'' None,
          Game [] False False ''k7/8/8/8/8/8/8/5RK1 b - - 1 1'')"
    by (simp add: castleWithoutCheckState_def game_move_def getPromotionPieceMoveCharacter_def)
  have np: "\<not> isPromotionMove (mkMove ''e1'' ''g1'' ''O-O'' ''k'' None)"
    by (simp add: mkMove_def isPromotionMove_def truthy_def)
  show "boardState (moveSelectedPieceAndTriggerBotMove ?s ''g1'')
      = [(''king_white'', ''g1''), (''rook_white_1'', ''f1''), (''king_black'', ''a8'')]"
    unfolding moveSelectedPieceAndTriggerBotMove_def m triggerBotMove_fields
      boardState_submit_not_promotion [OF gm np]
    by (simp add: castleWithoutCheckState_def registry_eval)
qed

text \<open>
  C4. For an executed move whose record is an en passant capture, on a registry that
  maps distinct identities to distinct squares and with the captured pawn on the square
  where the previous move ended: afterwards the moving pawn is on the destination
  square, no identity is on the captured pawn's square, and the captured pawn's
  renderable is hidden. First part: the human path; second part: the opponent's path.
\<close>

theorem en_passant_removes_the_captured_pawn:
  assumes ep: "isEnPassantMove move" "\<not> isCastlingMove move" "\<not> isPromotionMove move"
    and prev: "previousMove s = Some pm"
    and cap: "getPieceAt (boardState s) (mv_to pm) = Some captured" "captured \<noteq> []"
      "hasName s captured"
    and mover: "getPieceAt (boardState s) from = Some pawn" "pawn \<noteq> []"
    and sq: "mv_to pm \<noteq> from" "mv_to pm \<noteq> to" "hasName s to"
    and inj: "distinct (map fst (boardState s))" "distinct (map snd (boardState s))"
  shows "(game_move (game s) from to (getPromotionPieceMoveCharacter pp) = Some (move, g') \<longrightarrow>
           (let s' = snd (moveSelectedPiece_submit s from to pp)
            in fst (moveSelectedPiece_submit s from to pp) = Returned
               \<and> getPiecePosition (boardState s') pawn = Some to
               \<and> getPieceAt (boardState s') (mv_to pm) = None
               \<and> hidden (scene s') captured))
         \<and> (str_includes ''bestmove'' message
              \<and> getBestMoveDetails message = Some (from, to, [])
              \<and> game_move (game s) from to [] = Some (move, g') \<longrightarrow>
           (\<exists>s'. onBotMessage s message = Inr s'
               \<and> getPiecePosition (boardState s') pawn = Some to
               \<and> getPieceAt (boardState s') (mv_to pm) = None
               \<and> hidden (scene s') captured))"
proof (intro conjI impI)
  let ?s1 = "s\<lparr>game := g'\<rparr>"
  have h: "hidden (scene (captureEnPassantPawn ?s1)) captured"
    using prev cap by (intro hidden_captureEnPassantPawn [of _ pm]) simp_all
  note entries = enPassant_entries [OF inj cap(1,2) mover sq(1,2)]
  {
    assume gm: "game_move (game s) from to (getPromotionPieceMoveCharacter pp) = Some (move, g')"
    note eq = submit_not_promotion [OF gm ep(3)]
    have b: "boardState (snd (moveSelectedPiece_submit s from to pp)) =
        moveEntry (captureEntry (boardState s) (Some pm)) True from to"
      using sq(3) prev
      by (simp add: boardState_submit_not_promotion [OF gm ep(3)] specialEntries_enPassant ep)
    have "hidden (scene (snd (moveSelectedPiece_submit s from to pp))) captured"
      using h by (simp add: eq specialMoves_enPassant ep)
    with entries show "let s' = snd (moveSelectedPiece_submit s from to pp)
            in fst (moveSelectedPiece_submit s from to pp) = Returned
               \<and> getPiecePosition (boardState s') pawn = Some to
               \<and> getPieceAt (boardState s') (mv_to pm) = None
               \<and> hidden (scene s') captured"
      unfolding Let_def b by (simp add: eq)
  }
  {
    assume a: "str_includes ''bestmove'' message
              \<and> getBestMoveDetails message = Some (from, to, [])
              \<and> game_move (game s) from to [] = Some (move, g')"
    then have eq: "onBotMessage s message =
       Inr (showVerdictIfNecessary
        ((setAndIlluminatePreviousMove
           (movePieceOnBoard (specialMoves (s\<lparr>game := g'\<rparr>) move to) from to)
           (Some move))\<lparr>isPlayerTurn := True\<rparr>))"
      by (intro onBotMessage_plain) simp_all
    show "\<exists>s'. onBotMessage s message = Inr s'
               \<and> getPiecePosition (boardState s') pawn = Some to
               \<and> getPieceAt (boardState s') (mv_to pm) = None
               \<and> hidden (scene s') captured"
      using h entries sq(3) prev
      by (simp add: eq specialMoves_enPassant ep boardState_movePieceOnBoard
          boardState_captureEnPassantPawn)
  }
qed

theorem en_passant_removes_the_captured_pawn_witness:
  "(let s' = snd (moveSelectedPiece_submit enPassantState ''e5'' ''d6'' None)
    in fst (moveSelectedPiece_submit enPassantState ''e5'' ''d6'' None) = Returned
       \<and> getPiecePosition (boardState s') ''pawn_white_5'' = Some ''d6''
       \<and> getPieceAt (boardState s') ''d5'' = None
       \<and> hidden (scene s') ''pawn_black_4'')
   \<and> (\<exists>s'. onBotMessage enPassantByOpponentState ''bestmove d4e3'' = Inr s'
       \<and> getPiecePosition (boardState s') ''pawn_black_4'' = Some ''e3''
       \<and> getPieceAt (boardState s') ''e4'' = None
       \<and> hidden (scene s') ''pawn_white_5'')"
proof
  let ?s = enPassantState
  let ?mv = "mkMove ''e5'' ''d6'' ''exd6'' ''e'' None"
  let ?pm = "mkMove ''d7'' ''d5'' ''d5'' ''b'' None"
  let ?g = "Game [] False False ''rnbqkbnr/1pp1pppp/p2P4/8/8/8/PPPP1PPP/RNBQKBNR b KQkq - 0 3''"
  have kind: "isEnPassantMove ?mv" "\<not> isCastlingMove ?mv" "\<not> isPromotionMove ?mv"
    by (simp_all add: mkMove_def isPromotionMove_def truthy_def isCastlingMove_def
        isKingSideCastling_def isQueenSideCastling_def isEnPassantMove_def)
  have prev: "previousMove ?s = Some ?pm"
    by (simp add: enPassantState_def)
  have cap: "getPieceAt (boardState ?s) (mv_to ?pm) = Some ''pawn_black_4''"
    "''pawn_black_4'' \<noteq> []" "hasName ?s ''pawn_black_4''"
    by (simp_all add: enPassantState_def mkMove_def getPieceAt_def hasName_stateFor
        initBoardState_def)
  have mover: "getPieceAt (boardState ?s) ''e5'' = Some ''pawn_white_5''" "''pawn_white_5'' \<noteq> []"
    by (simp_all add: enPassantState_def getPieceAt_def)
  have sq: "mv_to ?pm \<noteq> ''e5''" "mv_to ?pm \<noteq> ''d6''" "hasName ?s ''d6''"
    by (simp_all add: enPassantState_def mkMove_def hasName_stateFor allSquares_def files_def)
  have inj: "distinct (map fst (boardState ?s))" "distinct (map snd (boardState ?s))"
    by (simp_all add: enPassantState_def)
  have gm: "game_move (game ?s) ''e5'' ''d6'' (getPromotionPieceMoveCharacter None) = Some (?mv, ?g)"
    by (simp add: enPassantState_def game_move_def getPromotionPieceMoveCharacter_def)
  have pm: "mv_to ?pm = ''d5''"
    by (simp add: mkMove_def)
  show "let s' = snd (moveSelectedPiece_submit enPassantState ''e5'' ''d6'' None)
    in fst (moveSelectedPiece_submit enPassantState ''e5'' ''d6'' None) = Returned
       \<and> getPiecePosition (boardState s') ''pawn_white_5'' = Some ''d6''
       \<and> getPieceAt (boardState s') ''d5'' = None
       \<and> hidden (scene s') ''pawn_black_4''"
    using en_passant_removes_the_captured_pawn [OF kind prev cap mover sq inj,
        where pp = None and g' = ?g, THEN conjunct1, THEN mp, OF gm]
    unfolding pm .
next
  let ?s = enPassantByOpponentState
  let ?mv = "mkMove ''d4'' ''e3'' ''dxe3'' ''e'' None"
  let ?pm = "mkMove ''e2'' ''e4'' ''e4'' ''b'' None"
  let ?g = "Game [] False False ''rnbqkbnr/ppp1pppp/8/8/P7/4p3/1PPP1PPP/RNBQKBNR w KQkq - 0 4''"
  have kind: "isEnPassantMove ?mv" "\<not> isCastlingMove ?mv" "\<not> isPromotionMove ?mv"
    by (simp_all add: mkMove_def isPromotionMove_def truthy_def isCastlingMove_def
        isKingSideCastling_def isQueenSideCastling_def isEnPassantMove_def)
  have prev: "previousMove ?s = Some ?pm"
    by (simp add: enPassantByOpponentState_def)
  have cap: "getPieceAt (boardState ?s) (mv_to ?pm) = Some ''pawn_white_5''"
    "''pawn_white_5'' \<noteq> []" "hasName ?s ''pawn_white_5''"
    by (simp_all add: enPassantByOpponentState_def mkMove_def getPieceAt_def hasName_stateFor
        initBoardState_def)
  have mover: "getPieceAt (boardState ?s) ''d4'' = Some ''pawn_black_4''" "''pawn_black_4'' \<noteq> []"
    by (simp_all add: enPassantByOpponentState_def getPieceAt_def)
  have sq: "mv_to ?pm \<noteq> ''d4''" "mv_to ?pm \<noteq> ''e3''" "hasName ?s ''e3''"
    by (simp_all add: enPassantByOpponentState_def mkMove_def hasName_stateFor allSquares_def
        files_def)
  have inj: "distinct (map fst (boardState ?s))" "distinct (map snd (boardState ?s))"
    by (simp_all add: enPassantByOpponentState_def)
  have inc: "str_includes ''bestmove'' ''bestmove d4e3''"
    by simp
  have det: "getBestMoveDetails ''bestmove d4e3'' = Some (''d4'', ''e3'', [])"
    by (simp add: getBestMoveDetails_def at_index_def slice_def)
  have gm: "game_move (game ?s) ''d4'' ''e3'' [] = Some (?mv, ?g)"
    by (simp add: enPassantByOpponentState_def game_move_def)
  have pm: "mv_to ?pm = ''e4''"
    by (simp add: mkMove_def)
  show "\<exists>s'. onBotMessage enPassantByOpponentState ''bestmove d4e3'' = Inr s'
       \<and> getPiecePosition (boardState s') ''pawn_black_4'' = Some ''e3''
       \<and> getPieceAt (boardState s') ''e4'' = None
       \<and> hidden (scene s') ''pawn_white_5''"
    using en_passant_removes_the_captured_pawn [OF kind prev cap mover sq inj,
        where message = "''bestmove d4e3''" and g' = ?g, THEN conjunct2, THEN mp,
        OF conjI [OF inc conjI [OF det gm]]]
    unfolding pm .
qed



text \<open>
  C6. When the rules engine rejects the submission of a human move, the registry is
  unchanged, every scene object keeps its name, visibility and place and none is added,
  the selection and the valid moves are cleared, the turn flag is unchanged and nothing
  is posted to the opponent. This holds for a move submitted at once (first part) and
  for a move resumed by the promotion form (second part).
\<close>

theorem rejected_move_aborts:
  "(selectedPiece s = Some sp \<and> sp \<noteq> [] \<and> getPiecePosition (boardState s) sp = Some from
      \<and> from \<noteq> [] \<and> \<not> (shouldPromote sp to \<and> promotionModal s \<noteq> None)
      \<and> game_move (game s) from to ''q'' = None \<longrightarrow>
    (let s' = moveSelectedPieceAndTriggerBotMove s to
     in boardState s' = boardState s \<and> map geometry (scene s') = map geometry (scene s)
        \<and> selectedPiece s' = None \<and> validMoves s' = []
        \<and> isPlayerTurn s' = isPlayerTurn s \<and> botMessages s' = botMessages s
        \<and> game s' = game s))
   \<and>
   (deferredResolve s = Some (from, to)
      \<and> game_move (game s) from to
           (getPromotionPieceMoveCharacter (if promotionModal s = None then None else piece)) = None
      \<longrightarrow>
    (let s' = onPromote s (SubmitEvent (Some piece))
     in boardState s' = boardState s \<and> map geometry (scene s') = map geometry (scene s)
        \<and> \<not> truthy (selectedPiece s') \<and> validMoves s' = []
        \<and> isPlayerTurn s' = isPlayerTurn s \<and> botMessages s' = botMessages s
        \<and> game s' = game s))"
proof (intro conjI impI)
  assume a: "selectedPiece s = Some sp \<and> sp \<noteq> [] \<and> getPiecePosition (boardState s) sp = Some from
      \<and> from \<noteq> [] \<and> \<not> (shouldPromote sp to \<and> promotionModal s \<noteq> None)
      \<and> game_move (game s) from to ''q'' = None"
  then have rej: "game_move (game s) from to (getPromotionPieceMoveCharacter None) = None"
    by (simp add: getPromotionPieceMoveCharacter_def)
  from a have "moveSelectedPiece s to = moveSelectedPiece_submit s from to None"
    by (auto simp: moveSelectedPiece_def split: option.split)
  then have "moveSelectedPieceAndTriggerBotMove s to = unsetSelectedPieceAndValidMoves s"
    by (simp add: moveSelectedPieceAndTriggerBotMove_def submit_rejected [OF rej]
        triggerBotMove_def)
  with a show "let s' = moveSelectedPieceAndTriggerBotMove s to
     in boardState s' = boardState s \<and> map geometry (scene s') = map geometry (scene s)
        \<and> selectedPiece s' = None \<and> validMoves s' = []
        \<and> isPlayerTurn s' = isPlayerTurn s \<and> botMessages s' = botMessages s
        \<and> game s' = game s"
    by (simp add: unsetSelectedPieceAndValidMoves_selected)
next
  assume a: "deferredResolve s = Some (from, to)
      \<and> game_move (game s) from to
           (getPromotionPieceMoveCharacter (if promotionModal s = None then None else piece)) = None"
  show "let s' = onPromote s (SubmitEvent (Some piece))
     in boardState s' = boardState s \<and> map geometry (scene s') = map geometry (scene s)
        \<and> \<not> truthy (selectedPiece s') \<and> validMoves s' = []
        \<and> isPlayerTurn s' = isPlayerTurn s \<and> botMessages s' = botMessages s
        \<and> game s' = game s"
  proof (cases "promotionModal s")
    case None
    with a have "onPromote s (SubmitEvent (Some piece)) =
        unsetSelectedPieceAndValidMoves (s\<lparr>deferredResolve := None\<rparr>)"
      by (simp add: onPromote_def submit_rejected triggerBotMove_def)
    then show ?thesis by simp
  next
    case (Some m)
    with a have "onPromote s (SubmitEvent (Some piece)) =
        unsetSelectedPieceAndValidMoves (s\<lparr>deferredResolve := None, promotionModal := Some False\<rparr>)"
      by (simp add: onPromote_def submit_rejected triggerBotMove_def)
    then show ?thesis by simp
  qed
qed

theorem rejected_move_aborts_witness:
  "(let s = knightsOutState\<lparr>selectedPiece := Some ''pawn_white_5''\<rparr>;
        s' = moveSelectedPieceAndTriggerBotMove s ''e5''
    in boardState s' = boardState s \<and> map geometry (scene s') = map geometry (scene s)
       \<and> selectedPiece s' = None \<and> validMoves s' = []
       \<and> isPlayerTurn s' = isPlayerTurn s \<and> botMessages s' = botMessages s
       \<and> game s' = game s)
   \<and>
   (let s = knightsOutState\<lparr>selectedPiece := Some ''pawn_white_7'',
              promotionModal := Some True, deferredResolve := Some (''g2'', ''g1'')\<rparr>;
        s' = onPromote s (SubmitEvent (Some (Some ''queen'')))
    in boardState s' = boardState s \<and> map geometry (scene s') = map geometry (scene s)
       \<and> \<not> truthy (selectedPiece s') \<and> validMoves s' = []
       \<and> isPlayerTurn s' = isPlayerTurn s \<and> botMessages s' = botMessages s
       \<and> game s' = game s)"
proof -
  have no: "\<not> shouldPromote ''pawn_white_5'' ''e5''"
    by (simp add: shouldPromote_def at_index_def)
  show ?thesis
    using rejected_move_aborts [of "knightsOutState\<lparr>selectedPiece := Some ''pawn_white_5''\<rparr>"
        "''pawn_white_5''" "''e2''" "''e5''" "Some ''queen''", THEN conjunct1] no
      rejected_move_aborts [of "knightsOutState\<lparr>selectedPiece := Some ''pawn_white_7'',
              promotionModal := Some True, deferredResolve := Some (''g2'', ''g1'')\<rparr>"
        sp "''g2''" "''g1''" "Some ''queen''", THEN conjunct2]
    by (simp add: Let_def)
qed




text \<open>
  C8 at a promotion letter that is none of q, n, b, r. The letter decoded from the
  message goes to the engine as it is; the engine knows no such promotion and rejects
  the move, so the handler ends in the engine's exception and the state is as before.
  The default of queen exists only where the visual piece is chosen. With the letter q
  the same move is executed.
\<close>

theorem unknown_promotion_letter_is_rejected:
  "onBotMessage blackPromotionState ''bestmove a2a1x'' = Inl (InvalidMove, blackPromotionState)
   \<and> pieceCharacterToPiece (isPlayerTurn blackPromotionState) ''x'' = ''queen_black''
   \<and> (\<exists>s'. onBotMessage blackPromotionState ''bestmove a2a1q'' = Inr s'
          \<and> boardState s' =
              [(''king_white'', ''h3''), (''king_black'', ''e8''), (''queen_black_2'', ''a1'')])"
proof (intro conjI)
  let ?s = blackPromotionState
  have inc: "str_includes ''bestmove'' ''bestmove a2a1x''"
    by simp
  have det: "getBestMoveDetails ''bestmove a2a1x'' = Some (''a2'', ''a1'', ''x'')"
    by (simp add: getBestMoveDetails_def at_index_def slice_def)
  have "game_move (game ?s) ''a2'' ''a1'' ''x'' = None"
    by (simp add: blackPromotionState_def game_move_def)
  with inc det show "onBotMessage ?s ''bestmove a2a1x'' = Inl (InvalidMove, ?s)"
    by (rule onBotMessage_rejected)
  show "pieceCharacterToPiece (isPlayerTurn ?s) ''x'' = ''queen_black''"
    by (simp add: blackPromotionState_def pieceCharacterToPiece_def)
  let ?mv = "mkMove ''a2'' ''a1'' ''a1=Q'' ''np'' (Some ''q'')"
  let ?g = "Game [] False False ''4k3/8/8/8/8/7K/8/q7 w - - 0 2''"
  have inc: "str_includes ''bestmove'' ''bestmove a2a1q''"
    by simp
  have det: "getBestMoveDetails ''bestmove a2a1q'' = Some (''a2'', ''a1'', ''q'')"
    by (simp add: getBestMoveDetails_def at_index_def slice_def)
  have gm: "game_move (game ?s) ''a2'' ''a1'' ''q'' = Some (?mv, ?g)"
    by (simp add: blackPromotionState_def game_move_def)
  have kind: "\<not> isCastlingMove ?mv" "\<not> isEnPassantMove ?mv"
    by (simp_all add: mkMove_def isCastlingMove_def isKingSideCastling_def
        isQueenSideCastling_def isEnPassantMove_def)
  have piece: "pieceCharacterToPiece (isPlayerTurn ?s) ''q'' = ''queen_black''"
    by (simp add: blackPromotionState_def pieceCharacterToPiece_def)
  have count: "countNamed (pieceCharacterToPiece (isPlayerTurn ?s) ''q'') (map name (scene ?s)) = 1"
    "(1::nat) \<noteq> 0"
    unfolding piece by (simp_all add: blackPromotionState_def sceneFor_counts)
  have pawn: "getPieceAt (boardState ?s) ''a2'' = Some ''pawn_black_1''"
    "hasName ?s ''pawn_black_1''"
    by (simp_all add: blackPromotionState_def getPieceAt_def hasName_stateFor
        initBoardState_def)
  have sq: "hasName ?s ''a1''"
    by (simp add: blackPromotionState_def hasName_stateFor allSquares_def files_def)
  from onBotMessage_promotion_registry [OF inc det _ gm kind count pawn]
  obtain s' where s': "onBotMessage ?s ''bestmove a2a1q'' = Inr s'"
    and b: "boardState s' =
      moveEntry (AList.update (pieceCharacterToPiece (isPlayerTurn ?s) ''q'' @ ''_'' @ decimal (1 + 1))
          ''a1'' (AList.delete ''pawn_black_1'' (boardState ?s)))
        (hasName ?s ''a1'') ''a2'' ''a1''"
    by auto
  have "boardState s' =
      [(''king_white'', ''h3''), (''king_black'', ''e8''), (''queen_black_2'', ''a1'')]"
    unfolding b piece
    by (simp add: sq blackPromotionState_def moveEntry_def getPieceAt_def decimal.simps
        digit_char_def)
  with s' show "\<exists>s'. onBotMessage ?s ''bestmove a2a1q'' = Inr s'
          \<and> boardState s' =
              [(''king_white'', ''h3''), (''king_black'', ''e8''), (''queen_black_2'', ''a1'')]"
    by blast
qed

text \<open>
  C9 at a mate on the hundredth half-move. The engine reports checkmate and, by its
  half-move count, a draw as well. \<open>showGameVerdict\<close> tests the two in turn with no
  \<open>else\<close>: the winner's text is written and the draw text is written over it. After the
  human's mating move the verdict reads \<open>Draw!\<close>, not that the Player wins.
\<close>

theorem mate_on_hundredth_half_move_shows_draw:
  "(let s' = moveSelectedPieceAndTriggerBotMove mateOnHundredthHalfMoveState ''h7''
    in isCheckmate (game s') \<and> isDraw (game s')
       \<and> isPlayerTurn s' = False
       \<and> gameVerdict s' = Some ''Draw!'' \<and> verdictModal s' = Some True)"
proof -
  let ?s = mateOnHundredthHalfMoveState
  let ?mv = "mkMove ''a7'' ''h7'' ''Qh7#'' ''n'' None"
  let ?g = "Game [] True True ''7k/7Q/6K1/8/8/8/8/8 b - - 100 80''"
  have m: "moveSelectedPieceAndTriggerBotMove ?s ''h7'' =
      triggerBotMove (moveSelectedPiece_submit ?s ''a7'' ''h7'' None)"
    by (rule moveSelectedPieceAndTriggerBotMove_direct [of _ "''queen_white_1''"])
      (simp_all add: mateOnHundredthHalfMoveState_def getPiecePosition_def shouldPromote_def)
  have gm: "game_move (game ?s) ''a7'' ''h7'' (getPromotionPieceMoveCharacter None)
      = Some (?mv, ?g)"
    by (simp add: mateOnHundredthHalfMoveState_def game_move_def
        getPromotionPieceMoveCharacter_def)
  have np: "\<not> isPromotionMove ?mv"
    by (simp add: mkMove_def isPromotionMove_def truthy_def)
  let ?t = "(setAndIlluminatePreviousMove
       (movePieceOnBoard (specialMoves (?s\<lparr>game := ?g\<rparr>) ?mv ''h7'') ''a7'' ''h7'')
       (Some ?mv))\<lparr>isPlayerTurn := False\<rparr>"
  have eq: "moveSelectedPiece_submit ?s ''a7'' ''h7'' None =
      (Returned, unsetSelectedPieceAndValidMoves (showVerdictIfNecessary ?t))"
    by (rule submit_not_promotion [OF gm np])
  have t: "gameVerdict ?t \<noteq> None" "verdictModal ?t \<noteq> None" "isDraw (game ?t)"
    "isCheckmate (game ?t)"
    by (simp_all add: mateOnHundredthHalfMoveState_def)
  show ?thesis
    unfolding Let_def m eq
    using t by (simp add: triggerBotMove_def showVerdict_draw)
qed

text \<open>
  C10. The wait for the promotion choice resolves once. A suspended move has installed
  the resolver; a form submission that reaches the resolver clears it, so a further
  submission changes nothing; and a submission that finds no resolver changes nothing.
\<close>

theorem promotion_wait_single_shot:
  "(fst (moveSelectedPiece s to) = Suspended \<longrightarrow>
      deferredResolve (snd (moveSelectedPiece s to)) \<noteq> None)
   \<and> deferredResolve (onPromote s (SubmitEvent (Some piece))) = None
   \<and> onPromote (onPromote s (SubmitEvent (Some piece))) event
       = onPromote s (SubmitEvent (Some piece))
   \<and> (deferredResolve s = None \<longrightarrow> onPromote s event = s)"
proof -
  have installs: "fst (moveSelectedPiece s to) = Suspended \<longrightarrow>
      deferredResolve (snd (moveSelectedPiece s to)) \<noteq> None"
    by (auto simp: moveSelectedPiece_def split: option.splits if_splits)
  have idle: "onPromote t e = t" if "deferredResolve t = None" for t e
    using that by (simp add: onPromote_def split: option.split)
  have cleared: "deferredResolve (onPromote s (SubmitEvent (Some piece))) = None"
    by (simp add: onPromote_def Let_def split: option.split prod.split)
  from installs cleared idle [OF cleared] idle show ?thesis
    by blast
qed

theorem promotion_wait_single_shot_witness:
  "fst (moveSelectedPiece promotionState ''b8'') = Suspended
   \<and> deferredResolve (snd (moveSelectedPiece promotionState ''b8'')) \<noteq> None
   \<and> deferredResolve knightsOutState = None
   \<and> onPromote knightsOutState (SubmitEvent (Some (Some ''queen''))) = knightsOutState"
proof -
  have "fst (moveSelectedPiece promotionState ''b8'') = Suspended"
    by (simp add: moveSelectedPiece_suspended_iff [of _ "''pawn_white_1''" "''a7''"]
        promotionState_def stateFor_def promotionBoard_def getPiecePosition_def
        shouldPromote_def at_index_def)
  then show ?thesis
    using promotion_wait_single_shot [of promotionState "''b8''", THEN conjunct1]
      promotion_wait_single_shot [of knightsOutState _ _
        "SubmitEvent (Some (Some ''queen''))", THEN conjunct2, THEN conjunct2, THEN conjunct2]
    by simp
qed

end
